theory Spec2Isabelle
  imports Main "HOL-Library.Word"
begin

section \<open>Boot facts (boot/early\_init.c)\<close>

text \<open>
  The orchestration layer in \<^verbatim>\<open>boot/early_init.c\<close> works on a caller-provided
  \<^verbatim>\<open>boot_facts_t\<close>. Its declaration (\<^verbatim>\<open>boot_contract.h\<close>) is not among the sources;
  the records below carry exactly the fields that \<^verbatim>\<open>early_init.c\<close> and
  \<^verbatim>\<open>arch/x86_64/boot_probe.c\<close> read and write, with the C types visible at those uses
  (\<^verbatim>\<open>uint32_t\<close> counters printed with \<^verbatim>\<open>%u\<close>, a \<^verbatim>\<open>uint64_t\<close> memory size, \<^verbatim>\<open>bool\<close> flags).
  Field names that occur in several C structs (\<^verbatim>\<open>valid\<close>, \<^verbatim>\<open>level\<close>) get a prefix.
\<close>

type_synonym u32 = "32 word"
type_synonym u64 = "64 word"

datatype cpu_vendor = CPU_VENDOR_UNKNOWN | CPU_VENDOR_INTEL | CPU_VENDOR_AMD

record cpu_info =
  vendor :: cpu_vendor
  family :: u32
  model :: u32
  stepping :: u32
  brand_string :: string
  ci_valid :: bool

record cache_info =
  level :: u32
  line_size :: u32
  ways :: u32
  size_kb :: u32
  shared :: bool
  inclusive :: bool
  cl_valid :: bool

record cache_topology =
  levels :: "cache_info list"
  level_count :: u32

record constant_time_support =
  aes_ni :: bool
  rdrand :: bool
  rdseed :: bool
  constant_time_mul :: bool
  constant_time_cmp :: bool
  ct_valid :: bool

record cache_control =
  clflush :: bool
  clflushopt :: bool
  clwb :: bool
  cat :: bool
  cdp :: bool
  cc_valid :: bool

record memory_protection =
  nx :: bool
  smep :: bool
  smap :: bool
  pku :: bool
  tme :: bool
  mp_valid :: bool

record side_channel_mitigation =
  ibrs :: bool
  stibp :: bool
  ssbd :: bool
  md_clear :: bool
  scm_valid :: bool

record boot_facts =
  cpu_info :: cpu_info
  cache_topology :: cache_topology
  cpu_count :: u32
  numa_nodes :: u32
  smt_enabled :: bool
  threads_per_core :: u32
  constant_time :: constant_time_support
  constant_time_supported :: bool
  cache_control :: cache_control
  cache_partitioning_supported :: bool
  memory_protection :: memory_protection
  memory_encryption_supported :: bool
  side_channel_mitigation :: side_channel_mitigation
  side_channel_mitigations_available :: bool
  trng_available :: bool
  total_memory_mb :: u64
  uefi_boot :: bool
  secure_boot_enabled :: bool
  probed :: bool
  validated :: bool
  sealed :: bool

subsection \<open>The all-zero record written by memset\<close>

text \<open>
  \<^verbatim>\<open>memset(facts, 0, sizeof(boot_facts_t))\<close>: every counter is 0, every flag false, the brand
  string starts with a NUL byte (the empty C string) and the cache table holds
  \<^verbatim>\<open>MAX_CACHE_LEVELS\<close> zeroed entries. The enumerator of \<^verbatim>\<open>vendor\<close> whose value is 0 is not
  visible in the sources; it is taken to be \<^verbatim>\<open>CPU_VENDOR_UNKNOWN\<close>, and nothing below
  depends on that choice.
\<close>

definition MAX_CACHE_LEVELS :: nat where
  "MAX_CACHE_LEVELS = 4"

definition zero_cpu_info :: cpu_info where
  "zero_cpu_info = \<lparr>vendor = CPU_VENDOR_UNKNOWN, family = 0, model = 0, stepping = 0,
     brand_string = [], ci_valid = False\<rparr>"

definition zero_cache_info :: cache_info where
  "zero_cache_info = \<lparr>level = 0, line_size = 0, ways = 0, size_kb = 0,
     shared = False, inclusive = False, cl_valid = False\<rparr>"

definition zero_cache_topology :: cache_topology where
  "zero_cache_topology = \<lparr>levels = replicate MAX_CACHE_LEVELS zero_cache_info, level_count = 0\<rparr>"

definition zero_constant_time :: constant_time_support where
  "zero_constant_time = \<lparr>aes_ni = False, rdrand = False, rdseed = False,
     constant_time_mul = False, constant_time_cmp = False, ct_valid = False\<rparr>"

definition zero_cache_control :: cache_control where
  "zero_cache_control = \<lparr>clflush = False, clflushopt = False, clwb = False,
     cat = False, cdp = False, cc_valid = False\<rparr>"

definition zero_memory_protection :: memory_protection where
  "zero_memory_protection = \<lparr>nx = False, smep = False, smap = False, pku = False,
     tme = False, mp_valid = False\<rparr>"

definition zero_side_channel_mitigation :: side_channel_mitigation where
  "zero_side_channel_mitigation = \<lparr>ibrs = False, stibp = False, ssbd = False,
     md_clear = False, scm_valid = False\<rparr>"

definition zero_boot_facts :: boot_facts where
  "zero_boot_facts = \<lparr>
     cpu_info = zero_cpu_info,
     cache_topology = zero_cache_topology,
     cpu_count = 0,
     numa_nodes = 0,
     smt_enabled = False,
     threads_per_core = 0,
     constant_time = zero_constant_time,
     constant_time_supported = False,
     cache_control = zero_cache_control,
     cache_partitioning_supported = False,
     memory_protection = zero_memory_protection,
     memory_encryption_supported = False,
     side_channel_mitigation = zero_side_channel_mitigation,
     side_channel_mitigations_available = False,
     trng_available = False,
     total_memory_mb = 0,
     uefi_boot = False,
     secure_boot_enabled = False,
     probed = False,
     validated = False,
     sealed = False\<rparr>"

subsection \<open>boot\_init\<close>

text \<open>
  \<^verbatim>\<open>void boot_init(boot_facts_t *facts)\<close> overwrites whatever the caller's memory held:
  the argument is the old contents, the result the new contents. There is no check of
  any flag and no return value.
\<close>

definition boot_init :: "boot_facts \<Rightarrow> boot_facts" where
  "boot_init facts = zero_boot_facts\<lparr>probed := False, validated := False, sealed := False\<rparr>"

subsection \<open>The probe provider\<close>

text \<open>
  \<^verbatim>\<open>boot_probe\<close> calls fourteen functions of the architecture layer. The ones with an
  out-parameter (\<^verbatim>\<open>bool boot_probe_cpu_info(cpu_info_t *info)\<close> and its like) may write
  to the struct they are handed whether or not they succeed, so each is a function from
  the struct's old contents to the returned flag and the new contents. The others take
  no argument and are their returned value. A provider is one set of such responses.
\<close>

record probe_provider =
  boot_probe_cpu_info :: "cpu_info \<Rightarrow> bool \<times> cpu_info"
  boot_probe_cache_topology :: "cache_topology \<Rightarrow> bool \<times> cache_topology"
  boot_probe_cpu_count :: u32
  boot_probe_numa_node_count :: u32
  boot_probe_smt_enabled :: bool
  boot_probe_threads_per_core :: u32
  boot_probe_constant_time_support :: "constant_time_support \<Rightarrow> bool \<times> constant_time_support"
  boot_probe_cache_control :: "cache_control \<Rightarrow> bool \<times> cache_control"
  boot_probe_memory_protection :: "memory_protection \<Rightarrow> bool \<times> memory_protection"
  boot_probe_side_channel_mitigation ::
    "side_channel_mitigation \<Rightarrow> bool \<times> side_channel_mitigation"
  boot_probe_trng_available :: bool
  boot_probe_total_memory_mb :: u64
  boot_probe_uefi_boot :: bool
  boot_probe_secure_boot_enabled :: bool

text \<open>The calls into the provider, recorded in the order in which they are made.\<close>

datatype probe_call =
    Call_cpu_info
  | Call_cache_topology
  | Call_cpu_count
  | Call_numa_node_count
  | Call_smt_enabled
  | Call_threads_per_core
  | Call_constant_time_support
  | Call_cache_control
  | Call_memory_protection
  | Call_side_channel_mitigation
  | Call_trng_available
  | Call_total_memory_mb
  | Call_uefi_boot
  | Call_secure_boot_enabled

subsection \<open>boot\_probe\<close>

text \<open>
  A run of \<^verbatim>\<open>boot_probe\<close> is observed through the record and through the calls it makes
  into the architecture layer. Each call of a provider function is modelled by a wrapper
  that returns the provider's answer and appends the call to the log of calls made so
  far; the log is threaded through the run like the record, so its order is the order in
  which the calls are executed.
\<close>

definition call_cpu_info ::
  "probe_provider \<Rightarrow> cpu_info \<Rightarrow> probe_call list \<Rightarrow> (bool \<times> cpu_info) \<times> probe_call list" where
  "call_cpu_info p info log = (boot_probe_cpu_info p info, log @ [Call_cpu_info])"

definition call_cache_topology ::
  "probe_provider \<Rightarrow> cache_topology \<Rightarrow> probe_call list
     \<Rightarrow> (bool \<times> cache_topology) \<times> probe_call list" where
  "call_cache_topology p cache log =
     (boot_probe_cache_topology p cache, log @ [Call_cache_topology])"

definition call_cpu_count :: "probe_provider \<Rightarrow> probe_call list \<Rightarrow> u32 \<times> probe_call list" where
  "call_cpu_count p log = (boot_probe_cpu_count p, log @ [Call_cpu_count])"

definition call_numa_node_count ::
  "probe_provider \<Rightarrow> probe_call list \<Rightarrow> u32 \<times> probe_call list" where
  "call_numa_node_count p log = (boot_probe_numa_node_count p, log @ [Call_numa_node_count])"

definition call_smt_enabled :: "probe_provider \<Rightarrow> probe_call list \<Rightarrow> bool \<times> probe_call list" where
  "call_smt_enabled p log = (boot_probe_smt_enabled p, log @ [Call_smt_enabled])"

definition call_threads_per_core ::
  "probe_provider \<Rightarrow> probe_call list \<Rightarrow> u32 \<times> probe_call list" where
  "call_threads_per_core p log = (boot_probe_threads_per_core p, log @ [Call_threads_per_core])"

definition call_constant_time_support ::
  "probe_provider \<Rightarrow> constant_time_support \<Rightarrow> probe_call list
     \<Rightarrow> (bool \<times> constant_time_support) \<times> probe_call list" where
  "call_constant_time_support p ct log =
     (boot_probe_constant_time_support p ct, log @ [Call_constant_time_support])"

definition call_cache_control ::
  "probe_provider \<Rightarrow> cache_control \<Rightarrow> probe_call list
     \<Rightarrow> (bool \<times> cache_control) \<times> probe_call list" where
  "call_cache_control p cc log = (boot_probe_cache_control p cc, log @ [Call_cache_control])"

definition call_memory_protection ::
  "probe_provider \<Rightarrow> memory_protection \<Rightarrow> probe_call list
     \<Rightarrow> (bool \<times> memory_protection) \<times> probe_call list" where
  "call_memory_protection p mp log =
     (boot_probe_memory_protection p mp, log @ [Call_memory_protection])"

definition call_side_channel_mitigation ::
  "probe_provider \<Rightarrow> side_channel_mitigation \<Rightarrow> probe_call list
     \<Rightarrow> (bool \<times> side_channel_mitigation) \<times> probe_call list" where
  "call_side_channel_mitigation p scm log =
     (boot_probe_side_channel_mitigation p scm, log @ [Call_side_channel_mitigation])"

definition call_trng_available ::
  "probe_provider \<Rightarrow> probe_call list \<Rightarrow> bool \<times> probe_call list" where
  "call_trng_available p log = (boot_probe_trng_available p, log @ [Call_trng_available])"

definition call_total_memory_mb ::
  "probe_provider \<Rightarrow> probe_call list \<Rightarrow> u64 \<times> probe_call list" where
  "call_total_memory_mb p log = (boot_probe_total_memory_mb p, log @ [Call_total_memory_mb])"

definition call_uefi_boot :: "probe_provider \<Rightarrow> probe_call list \<Rightarrow> bool \<times> probe_call list" where
  "call_uefi_boot p log = (boot_probe_uefi_boot p, log @ [Call_uefi_boot])"

definition call_secure_boot_enabled ::
  "probe_provider \<Rightarrow> probe_call list \<Rightarrow> bool \<times> probe_call list" where
  "call_secure_boot_enabled p log =
     (boot_probe_secure_boot_enabled p, log @ [Call_secure_boot_enabled])"

text \<open>
  The body of \<^verbatim>\<open>boot_probe\<close> is twelve commented steps. Each step is one definition
  here, named after its comment, working on the pair of the record and the call log;
  \<^verbatim>\<open>boot_probe\<close> below chains them in the order of the source. The steps with a fatal
  exit return the flag that decides it.
\<close>

type_synonym probe_run = "boot_facts \<times> probe_call list"

text \<open>Step 1: \<^verbatim>\<open>boot_probe_cpu_info(&facts->cpu_info)\<close>.\<close>

definition step_cpu_info :: "probe_provider \<Rightarrow> probe_run \<Rightarrow> bool \<times> probe_run" where
  "step_cpu_info p s =
     (case s of (facts, log) \<Rightarrow>
        let ((ok, ci), log) = call_cpu_info p (cpu_info facts) log
        in (ok, facts\<lparr>cpu_info := ci\<rparr>, log))"

text \<open>Step 2: \<^verbatim>\<open>boot_probe_cache_topology(&facts->cache_topology)\<close>.\<close>

definition step_cache_topology :: "probe_provider \<Rightarrow> probe_run \<Rightarrow> bool \<times> probe_run" where
  "step_cache_topology p s =
     (case s of (facts, log) \<Rightarrow>
        let ((ok, cache), log) = call_cache_topology p (cache_topology facts) log
        in (ok, facts\<lparr>cache_topology := cache\<rparr>, log))"

text \<open>Step 3: \<^verbatim>\<open>facts->cpu_count = boot_probe_cpu_count()\<close>.\<close>

definition step_cpu_count :: "probe_provider \<Rightarrow> probe_run \<Rightarrow> probe_run" where
  "step_cpu_count p s =
     (case s of (facts, log) \<Rightarrow>
        let (n, log) = call_cpu_count p log
        in (facts\<lparr>cpu_count := n\<rparr>, log))"

text \<open>Step 4: the NUMA node count, with 0 replaced by 1.\<close>

definition step_numa :: "probe_provider \<Rightarrow> probe_run \<Rightarrow> probe_run" where
  "step_numa p s =
     (case s of (facts, log) \<Rightarrow>
        let (n, log) = call_numa_node_count p log;
            f = facts\<lparr>numa_nodes := n\<rparr>
        in if numa_nodes f = 0 then (f\<lparr>numa_nodes := 1\<rparr>, log) else (f, log))"

text \<open>Step 5: SMT; \<^verbatim>\<open>boot_probe_threads_per_core\<close> is called only when SMT is reported on.\<close>

definition step_smt :: "probe_provider \<Rightarrow> probe_run \<Rightarrow> probe_run" where
  "step_smt p s =
     (case s of (facts, log) \<Rightarrow>
        let (smt, log) = call_smt_enabled p log;
            f = facts\<lparr>smt_enabled := smt\<rparr>
        in if smt_enabled f
           then let (n, log) = call_threads_per_core p log
                in (f\<lparr>threads_per_core := n\<rparr>, log)
           else (f\<lparr>threads_per_core := 1\<rparr>, log))"

text \<open>Step 6: constant-time support and its aggregate flag.\<close>

definition step_constant_time :: "probe_provider \<Rightarrow> probe_run \<Rightarrow> probe_run" where
  "step_constant_time p s =
     (case s of (facts, log) \<Rightarrow>
        let ((ok, ct), log) = call_constant_time_support p (constant_time facts) log;
            f = facts\<lparr>constant_time := ct\<rparr>;
            f = (if \<not> ok then f\<lparr>constant_time := (constant_time f)\<lparr>ct_valid := False\<rparr>\<rparr>
                 else f)
        in (f\<lparr>constant_time_supported :=
                ct_valid (constant_time f) \<and> aes_ni (constant_time f)
                \<and> rdrand (constant_time f)\<rparr>, log))"

text \<open>Step 7: cache control and its aggregate flag.\<close>

definition step_cache_control :: "probe_provider \<Rightarrow> probe_run \<Rightarrow> probe_run" where
  "step_cache_control p s =
     (case s of (facts, log) \<Rightarrow>
        let ((ok, cc), log) = call_cache_control p (cache_control facts) log;
            f = facts\<lparr>cache_control := cc\<rparr>;
            f = (if \<not> ok then f\<lparr>cache_control := (cache_control f)\<lparr>cc_valid := False\<rparr>\<rparr>
                 else f)
        in (f\<lparr>cache_partitioning_supported :=
                cc_valid (cache_control f)
                \<and> (cat (cache_control f) \<or> cdp (cache_control f))\<rparr>, log))"

text \<open>Step 8: memory protection and its aggregate flag.\<close>

definition step_memory_protection :: "probe_provider \<Rightarrow> probe_run \<Rightarrow> probe_run" where
  "step_memory_protection p s =
     (case s of (facts, log) \<Rightarrow>
        let ((ok, mp), log) = call_memory_protection p (memory_protection facts) log;
            f = facts\<lparr>memory_protection := mp\<rparr>;
            f = (if \<not> ok
                 then f\<lparr>memory_protection := (memory_protection f)\<lparr>mp_valid := False\<rparr>\<rparr>
                 else f)
        in (f\<lparr>memory_encryption_supported :=
                mp_valid (memory_protection f) \<and> tme (memory_protection f)\<rparr>, log))"

text \<open>Step 9: side-channel mitigations and their aggregate flag.\<close>

definition step_side_channel :: "probe_provider \<Rightarrow> probe_run \<Rightarrow> probe_run" where
  "step_side_channel p s =
     (case s of (facts, log) \<Rightarrow>
        let ((ok, scm), log) =
              call_side_channel_mitigation p (side_channel_mitigation facts) log;
            f = facts\<lparr>side_channel_mitigation := scm\<rparr>;
            f = (if \<not> ok
                 then f\<lparr>side_channel_mitigation :=
                         (side_channel_mitigation f)\<lparr>scm_valid := False\<rparr>\<rparr>
                 else f)
        in (f\<lparr>side_channel_mitigations_available :=
                scm_valid (side_channel_mitigation f) \<and> ibrs (side_channel_mitigation f)
                \<and> stibp (side_channel_mitigation f)\<rparr>, log))"

text \<open>Steps 10 and 11: TRNG and total memory.\<close>

definition step_trng :: "probe_provider \<Rightarrow> probe_run \<Rightarrow> probe_run" where
  "step_trng p s =
     (case s of (facts, log) \<Rightarrow>
        let (b, log) = call_trng_available p log
        in (facts\<lparr>trng_available := b\<rparr>, log))"

definition step_total_memory :: "probe_provider \<Rightarrow> probe_run \<Rightarrow> probe_run" where
  "step_total_memory p s =
     (case s of (facts, log) \<Rightarrow>
        let (n, log) = call_total_memory_mb p log
        in (facts\<lparr>total_memory_mb := n\<rparr>, log))"

text \<open>Step 12: boot mode, two provider calls.\<close>

definition step_boot_mode :: "probe_provider \<Rightarrow> probe_run \<Rightarrow> probe_run" where
  "step_boot_mode p s =
     (case s of (facts, log) \<Rightarrow>
        let (uefi, log) = call_uefi_boot p log;
            f = facts\<lparr>uefi_boot := uefi\<rparr>;
            (secure, log) = call_secure_boot_enabled p log
        in (f\<lparr>secure_boot_enabled := secure\<rparr>, log))"

text \<open>
  \<^verbatim>\<open>bool boot_probe(boot_facts_t *facts)\<close>. The result is the returned flag, the record
  as the call leaves it, and the log of provider calls. Every early \<^verbatim>\<open>return false\<close> of
  the source is a branch; whatever was written to the record before it stays written.
  Nothing but the last line writes \<^verbatim>\<open>probed\<close>.
\<close>

definition boot_probe ::
  "probe_provider \<Rightarrow> boot_facts \<Rightarrow> bool \<times> boot_facts \<times> probe_call list" where
  "boot_probe p facts =
    (if sealed facts then (False, facts, [])
     else
      let (ok1, s1) = step_cpu_info p (facts, [])
      in if \<not> ok1 then (False, s1)
      else
      let (ok2, s2) = step_cache_topology p s1
      in if \<not> ok2 then (False, s2)
      else
      let s3 = step_cpu_count p s2
      in if cpu_count (fst s3) = 0 then (False, s3)
      else
      let s4 = step_numa p s3;
          s5 = step_smt p s4;
          s6 = step_constant_time p s5;
          s7 = step_cache_control p s6;
          s8 = step_memory_protection p s7;
          s9 = step_side_channel p s8;
          s10 = step_trng p s9;
          s11 = step_total_memory p s10;
          (f12, log) = step_boot_mode p s11
      in (True, f12\<lparr>probed := True\<rparr>, log))"

definition probe_ok :: "bool \<times> boot_facts \<times> probe_call list \<Rightarrow> bool" where
  "probe_ok r = fst r"

definition probe_facts :: "bool \<times> boot_facts \<times> probe_call list \<Rightarrow> boot_facts" where
  "probe_facts r = fst (snd r)"

definition probe_calls :: "bool \<times> boot_facts \<times> probe_call list \<Rightarrow> probe_call list" where
  "probe_calls r = snd (snd r)"

subsection \<open>boot\_seal\<close>

text \<open>\<^verbatim>\<open>bool boot_seal(boot_facts_t *facts)\<close>: the returned flag and the record afterwards.\<close>

definition boot_seal :: "boot_facts \<Rightarrow> bool \<times> boot_facts" where
  "boot_seal facts =
    (if \<not> validated facts then (False, facts)
     else if sealed facts then (False, facts)
     else (True, facts\<lparr>sealed := True\<rparr>))"

subsection \<open>Validation context\<close>

text \<open>
  The enumerators of \<^verbatim>\<open>boot_error_t\<close> are the cases of the \<^verbatim>\<open>switch\<close> in
  \<^verbatim>\<open>boot_error_string\<close>, in the order they are written there.
\<close>

datatype boot_error =
    BOOT_ERROR_NONE
  | BOOT_ERROR_CPU_DETECTION_FAILED
  | BOOT_ERROR_CACHE_DETECTION_FAILED
  | BOOT_ERROR_NUMA_DETECTION_FAILED
  | BOOT_ERROR_TOO_FEW_CORES
  | BOOT_ERROR_NO_CACHE
  | BOOT_ERROR_NO_NUMA
  | BOOT_ERROR_NO_CONSTANT_TIME_SUPPORT
  | BOOT_ERROR_NO_CACHE_CONTROL
  | BOOT_ERROR_NO_MEMORY_PROTECTION
  | BOOT_ERROR_NO_SIDE_CHANNEL_MITIGATION
  | BOOT_ERROR_NO_TRNG
  | BOOT_ERROR_SMT_ENABLED_NOT_ALLOWED
  | BOOT_ERROR_FREQ_SCALING_ENABLED
  | BOOT_ERROR_SECURE_BOOT_DISABLED
  | BOOT_WARN_ASYMMETRIC_CORES
  | BOOT_WARN_NUMA_DISABLED
  | BOOT_WARN_OLD_MICROCODE

datatype boot_validation_result =
    BOOT_VALIDATION_ACCEPT
  | BOOT_VALIDATION_WARN
  | BOOT_VALIDATION_HARD_FAIL

text \<open>
  Modelled from the spec: the declaration of \<^verbatim>\<open>boot_validation_result_t\<close> is in
  \<^verbatim>\<open>boot_contract.h\<close>, which is not among the sources. The comparison
  \<^verbatim>\<open>severity > ctx->worst_result\<close> compares the enumerators' integer values; the spec orders
  the severities Accept, Warn, HardFail ("the worst severity seen"), and the sibling
  \<^verbatim>\<open>topology_validation_result_t\<close> in \<^verbatim>\<open>topology_contract.h\<close> is declared
  \<^verbatim>\<open>ACCEPT = 0, WARN, HARD_FAIL\<close>. The same values are taken here.
\<close>

fun result_value :: "boot_validation_result \<Rightarrow> nat" where
  "result_value BOOT_VALIDATION_ACCEPT = 0"
| "result_value BOOT_VALIDATION_WARN = 1"
| "result_value BOOT_VALIDATION_HARD_FAIL = 2"

text \<open>
  \<^verbatim>\<open>boot_validation_context_t\<close>: an array of 32 error codes (the bound is the literal in
  \<^verbatim>\<open>boot_validation_context_add_error\<close>), the number of entries in use, and the worst
  severity so far.
\<close>

record boot_validation_context =
  errors :: "boot_error list"
  error_count :: u32
  worst_result :: boot_validation_result

definition boot_validation_context_init :: "boot_validation_context \<Rightarrow> boot_validation_context" where
  "boot_validation_context_init ctx =
     \<lparr>errors = replicate 32 BOOT_ERROR_NONE,
      error_count = 0,
      worst_result = BOOT_VALIDATION_ACCEPT\<rparr>"

text \<open>
  \<^verbatim>\<open>ctx->errors[ctx->error_count++] = error\<close> under the guard \<^verbatim>\<open>error_count < 32\<close>; there
  is no \<^verbatim>\<open>else\<close>. The severity is folded into \<^verbatim>\<open>worst_result\<close> in either case.
\<close>

definition boot_validation_context_add_error ::
  "boot_validation_context \<Rightarrow> boot_error \<Rightarrow> boot_validation_result \<Rightarrow> boot_validation_context" where
  "boot_validation_context_add_error ctx error severity =
    (let c1 = (if error_count ctx < 32
               then ctx\<lparr>errors := (errors ctx)[unat (error_count ctx) := error],
                        error_count := error_count ctx + 1\<rparr>
               else ctx)
     in if result_value severity > result_value (worst_result c1)
        then c1\<lparr>worst_result := severity\<rparr>
        else c1)"

text \<open>The entries in use: the first \<^verbatim>\<open>error_count\<close> slots, as \<^verbatim>\<open>boot_validation_context_print\<close> reads them.\<close>

definition recorded_errors :: "boot_validation_context \<Rightarrow> boot_error list" where
  "recorded_errors ctx = take (unat (error_count ctx)) (errors ctx)"

subsection \<open>boot\_validate\<close>

text \<open>
  \<^verbatim>\<open>boot_validation_result_t boot_validate(boot_facts_t *facts, boot_validation_context_t *ctx)\<close>:
  the returned severity, the record and the context as the call leaves them.
\<close>

definition boot_validate ::
  "boot_facts \<Rightarrow> boot_validation_context
     \<Rightarrow> boot_validation_result \<times> boot_facts \<times> boot_validation_context" where
  "boot_validate facts ctx =
    (let c0 = boot_validation_context_init ctx
     in if \<not> probed facts
        then (BOOT_VALIDATION_HARD_FAIL, facts,
              boot_validation_context_add_error c0
                BOOT_ERROR_CPU_DETECTION_FAILED BOOT_VALIDATION_HARD_FAIL)
        else
        let c1 = (if cpu_count facts < 2
                  then boot_validation_context_add_error c0
                         BOOT_ERROR_TOO_FEW_CORES BOOT_VALIDATION_HARD_FAIL
                  else c0);
            c2 = (if level_count (cache_topology facts) = 0
                  then boot_validation_context_add_error c1
                         BOOT_ERROR_NO_CACHE BOOT_VALIDATION_HARD_FAIL
                  else c1);
            c3 = (if numa_nodes facts < 1
                  then boot_validation_context_add_error c2
                         BOOT_ERROR_NO_NUMA BOOT_VALIDATION_HARD_FAIL
                  else c2);
            c4 = (if \<not> constant_time_supported facts
                  then boot_validation_context_add_error c3
                         BOOT_ERROR_NO_CONSTANT_TIME_SUPPORT BOOT_VALIDATION_WARN
                  else c3);
            c5 = (if \<not> trng_available facts
                  then boot_validation_context_add_error c4
                         BOOT_ERROR_NO_TRNG BOOT_VALIDATION_WARN
                  else c4);
            c6 = (if smt_enabled facts
                  then boot_validation_context_add_error c5
                         BOOT_ERROR_SMT_ENABLED_NOT_ALLOWED BOOT_VALIDATION_WARN
                  else c5);
            c7 = (if \<not> secure_boot_enabled facts
                  then boot_validation_context_add_error c6
                         BOOT_ERROR_SECURE_BOOT_DISABLED BOOT_VALIDATION_WARN
                  else c6)
        in if worst_result c7 \<noteq> BOOT_VALIDATION_HARD_FAIL
           then (worst_result c7, facts\<lparr>validated := True\<rparr>, c7)
           else (worst_result c7, facts, c7))"

definition validate_result ::
  "boot_validation_result \<times> boot_facts \<times> boot_validation_context \<Rightarrow> boot_validation_result" where
  "validate_result r = fst r"

definition validate_facts ::
  "boot_validation_result \<times> boot_facts \<times> boot_validation_context \<Rightarrow> boot_facts" where
  "validate_facts r = fst (snd r)"

definition validate_ctx ::
  "boot_validation_result \<times> boot_facts \<times> boot_validation_context \<Rightarrow> boot_validation_context" where
  "validate_ctx r = snd (snd r)"

text \<open>\<^verbatim>\<open>boot_validation_allows_boot\<close>.\<close>

definition boot_validation_allows_boot :: "boot_validation_context \<Rightarrow> bool" where
  "boot_validation_allows_boot ctx \<longleftrightarrow> worst_result ctx \<noteq> BOOT_VALIDATION_HARD_FAIL"

subsection \<open>Sequences of public operations\<close>

text \<open>
  The public operations on a \<^verbatim>\<open>boot_facts_t\<close> are \<^verbatim>\<open>boot_init\<close>, \<^verbatim>\<open>boot_probe\<close>,
  \<^verbatim>\<open>boot_validate\<close> and \<^verbatim>\<open>boot_seal\<close>. A caller's use of one record is a list of such
  calls; \<^verbatim>\<open>run_ops\<close> gives the record after them. Return values are dropped here, the
  record is kept, as in a caller that ignores failures.
\<close>

datatype boot_op =
    Op_init
  | Op_probe probe_provider
  | Op_validate boot_validation_context
  | Op_seal

fun apply_op :: "boot_op \<Rightarrow> boot_facts \<Rightarrow> boot_facts" where
  "apply_op Op_init f = boot_init f"
| "apply_op (Op_probe p) f = probe_facts (boot_probe p f)"
| "apply_op (Op_validate c) f = validate_facts (boot_validate f c)"
| "apply_op Op_seal f = snd (boot_seal f)"

fun run_ops :: "boot_op list \<Rightarrow> boot_facts \<Rightarrow> boot_facts" where
  "run_ops [] f = f"
| "run_ops (a # as) f = run_ops as (apply_op a f)"

section \<open>The x86-64 back-end's SMT probes (arch/x86\_64/boot\_probe.c)\<close>

text \<open>
  The machine is what \<^verbatim>\<open>cpuid(leaf, subleaf, &eax, &ebx, &ecx, &edx)\<close> answers: a function
  from leaf and subleaf to the four registers.
\<close>

unbundle bit_operations_syntax

type_synonym cpuid_machine = "u32 \<Rightarrow> u32 \<Rightarrow> u32 \<times> u32 \<times> u32 \<times> u32"

definition x86_boot_probe_smt_enabled :: "cpuid_machine \<Rightarrow> bool" where
  "x86_boot_probe_smt_enabled cpuid =
    (let (eax, ebx, ecx, edx) = cpuid 0 0;
         max_leaf = eax
     in if max_leaf \<ge> 1
        then
          let (eax, ebx, ecx, edx) = cpuid 1 0;
              htt = ((drop_bit 28 edx) AND 1 \<noteq> 0)
          in if htt
             then
               let logical_count = (drop_bit 16 ebx) AND 0xFF
               in if max_leaf \<ge> 0xB
                  then
                    let (eax, ebx, ecx, edx) = cpuid 0xB 0;
                        threads_per_core = ebx AND 0xFFFF
                    in threads_per_core > 1
                  else logical_count > 1
             else False
        else False)"

definition x86_boot_probe_threads_per_core :: "cpuid_machine \<Rightarrow> u32" where
  "x86_boot_probe_threads_per_core cpuid =
    (let (eax, ebx, ecx, edx) = cpuid 0 0;
         max_leaf = eax
     in if max_leaf \<ge> 0xB
        then
          let (eax, ebx, ecx, edx) = cpuid 0xB 0
          in ebx AND 0xFFFF
        else 1)"

section \<open>Topology (topology/topology\_contract.h)\<close>

text \<open>
  The header declares the topology types and functions; no implementation of them is
  among the sources. The types below follow the header, restricted to the fields the
  cache-isolation matrix depends on. The arrays \<^verbatim>\<open>cores[MAX_CORES]\<close> and
  \<^verbatim>\<open>isolation[MAX_CORES][MAX_CORES]\<close> are functions of their indices.
\<close>

type_synonym cache_domain_t = u32

datatype cache_isolation_level =
    CACHE_ISOLATED_NONE
  | CACHE_ISOLATED_L1
  | CACHE_ISOLATED_L2
  | CACHE_ISOLATED_L3
  | CACHE_ISOLATED_FULL

record core_geometry =
  l1_domain :: cache_domain_t
  l2_domain :: cache_domain_t
  l3_domain :: cache_domain_t
  cg_probed :: bool

record cache_isolation_matrix =
  isolation :: "nat \<Rightarrow> nat \<Rightarrow> cache_isolation_level"
  computed :: bool
  cim_sealed :: bool

record topology_state =
  cores :: "nat \<Rightarrow> core_geometry"
  core_count :: u32
  cache_isolation :: cache_isolation_matrix
  topo_probed :: bool
  topo_validated :: bool
  topo_sealed :: bool

definition zero_core_geometry :: core_geometry where
  "zero_core_geometry = \<lparr>l1_domain = 0, l2_domain = 0, l3_domain = 0, cg_probed = False\<rparr>"

text \<open>
  Modelled from the spec: \<^verbatim>\<open>topology_init\<close> is declared in the header and not implemented
  in the sources. "\<open>init(boot_facts)\<close>: requires \<open>boot_facts.sealed\<close>; zero the geometry
  array and matrix", and "\<open>topology.init(boot)\<close> with \<open>boot.sealed = false\<close> fails".
  The cores are those "in \<open>0 .. boot.cpu_count\<close>".
\<close>

definition topology_init :: "boot_facts \<Rightarrow> topology_state option" where
  "topology_init boot =
    (if \<not> sealed boot then None
     else Some \<lparr>cores = (\<lambda>i. zero_core_geometry),
                core_count = cpu_count boot,
                cache_isolation = \<lparr>isolation = (\<lambda>i j. CACHE_ISOLATED_NONE),
                                   computed = False, cim_sealed = False\<rparr>,
                topo_probed = False, topo_validated = False, topo_sealed = False\<rparr>)"

text \<open>
  Modelled from the spec: \<^verbatim>\<open>topology_probe_core\<close> is declared in the header and not
  implemented in the sources. "\<open>probe_core(id)\<close>: populate \<open>CoreGeometry\<close> per core
  through the provider"; the provider's answer for the core is the argument \<open>g\<close>.
  Operations on a sealed value fail ("Add/modify operations on a sealed value fail closed").
  The spec names only the cores "in \<open>0 .. boot.cpu_count\<close>"; that a core id outside this
  range is refused is an assumption of the model, and the matrix does not depend on it.
\<close>

definition topology_probe_core ::
  "topology_state \<Rightarrow> u32 \<Rightarrow> core_geometry \<Rightarrow> bool \<times> topology_state" where
  "topology_probe_core t core_id g =
    (if topo_sealed t \<or> \<not> core_id < core_count t then (False, t)
     else (True, t\<lparr>cores := (cores t)(unat core_id := g\<lparr>cg_probed := True\<rparr>)\<rparr>))"

text \<open>
  Modelled from the spec: the computation of one matrix entry is not in the sources.
  "Compute the deepest level at which the cores' cache-domain ids differ"; the levels are
  those of \<^verbatim>\<open>cache_isolation_level_t\<close> (\<^verbatim>\<open>CACHE_ISOLATED_L2\<close>: "Private L1/L2, shared L3").
\<close>

definition pair_isolation :: "core_geometry \<Rightarrow> core_geometry \<Rightarrow> cache_isolation_level" where
  "pair_isolation a b =
    (if l3_domain a \<noteq> l3_domain b then CACHE_ISOLATED_L3
     else if l2_domain a \<noteq> l2_domain b then CACHE_ISOLATED_L2
     else if l1_domain a \<noteq> l1_domain b then CACHE_ISOLATED_L1
     else CACHE_ISOLATED_NONE)"

text \<open>
  Modelled from the spec: \<^verbatim>\<open>topology_build_cache_isolation_matrix\<close> is declared in the
  header and not implemented in the sources. "For every ordered pair \<open>(i, j)\<close> with
  \<open>i \<le> j\<close>, compute the deepest level at which the cores' cache-domain ids differ; write
  the result symmetrically. [...] Diagonal is \<open>Full\<close>." The two loops run over the cores
  \<open>0 .. core_count\<close>; the inner one starts at \<open>i\<close>.
\<close>

definition matrix_entry :: "(nat \<Rightarrow> core_geometry) \<Rightarrow> nat \<Rightarrow> nat \<Rightarrow> cache_isolation_level" where
  "matrix_entry cs i j = (if i = j then CACHE_ISOLATED_FULL else pair_isolation (cs i) (cs j))"

definition write_symmetric ::
  "(nat \<Rightarrow> nat \<Rightarrow> cache_isolation_level) \<Rightarrow> nat \<Rightarrow> nat \<Rightarrow> cache_isolation_level
     \<Rightarrow> (nat \<Rightarrow> nat \<Rightarrow> cache_isolation_level)" where
  "write_symmetric m i j v =
    (let m1 = m(i := (m i)(j := v))
     in m1(j := (m1 j)(i := v)))"

definition build_row ::
  "(nat \<Rightarrow> core_geometry) \<Rightarrow> nat \<Rightarrow> nat \<Rightarrow> (nat \<Rightarrow> nat \<Rightarrow> cache_isolation_level)
     \<Rightarrow> (nat \<Rightarrow> nat \<Rightarrow> cache_isolation_level)" where
  "build_row cs n i m = fold (\<lambda>j m. write_symmetric m i j (matrix_entry cs i j)) [i..<n] m"

definition build_rows ::
  "(nat \<Rightarrow> core_geometry) \<Rightarrow> nat \<Rightarrow> (nat \<Rightarrow> nat \<Rightarrow> cache_isolation_level)
     \<Rightarrow> (nat \<Rightarrow> nat \<Rightarrow> cache_isolation_level)" where
  "build_rows cs n m = fold (\<lambda>i m. build_row cs n i m) [0..<n] m"

definition topology_build_cache_isolation_matrix :: "topology_state \<Rightarrow> bool \<times> topology_state" where
  "topology_build_cache_isolation_matrix t =
    (if topo_sealed t then (False, t)
     else (True, t\<lparr>cache_isolation := (cache_isolation t)\<lparr>
              isolation := build_rows (cores t) (unat (core_count t))
                             (isolation (cache_isolation t)),
              computed := True\<rparr>\<rparr>))"

text \<open>
  Modelled from the spec: \<^verbatim>\<open>topology_validate\<close> is declared in the header and not
  implemented in the sources. Its check list is not modelled; \<open>hard_fail\<close> stands for
  "some hard-fail check triggered". As for the boot facts, the validated flag is set when
  none did, and the matrix is only read.
\<close>

definition topology_validate :: "topology_state \<Rightarrow> bool \<Rightarrow> topology_state" where
  "topology_validate t hard_fail =
    (if topo_sealed t \<or> hard_fail then t else t\<lparr>topo_validated := True\<rparr>)"

text \<open>
  Modelled from the spec: \<^verbatim>\<open>topology_seal\<close> is declared in the header and not implemented
  in the sources. "\<open>seal()\<close>: requires \<open>validated\<close> and \<open>cache_isolation.computed\<close>; fixes
  the matrix." A second seal fails, as for the boot facts.
\<close>

definition topology_seal :: "topology_state \<Rightarrow> bool \<times> topology_state" where
  "topology_seal t =
    (if \<not> topo_validated t \<or> \<not> computed (cache_isolation t) \<or> topo_sealed t then (False, t)
     else (True, t\<lparr>cache_isolation := (cache_isolation t)\<lparr>cim_sealed := True\<rparr>,
                  topo_sealed := True\<rparr>))"

text \<open>
  Modelled from the spec: \<^verbatim>\<open>topology_get_cache_isolation\<close> is declared in the header
  ("Cache isolation level (O(1) lookup)") and not implemented in the sources:
  "\<open>cache_isolation(a, b) \<rightarrow> level\<close>", a read of the matrix.
\<close>

definition topology_get_cache_isolation ::
  "topology_state \<Rightarrow> u32 \<Rightarrow> u32 \<Rightarrow> cache_isolation_level" where
  "topology_get_cache_isolation t core_a core_b =
     isolation (cache_isolation t) (unat core_a) (unat core_b)"

text \<open>The topology operations a boot sequence applies after \<^verbatim>\<open>topology_init\<close>.\<close>

datatype topology_op =
    Top_probe_core u32 core_geometry
  | Top_build
  | Top_validate bool
  | Top_seal

fun apply_topology_op :: "topology_op \<Rightarrow> topology_state \<Rightarrow> topology_state" where
  "apply_topology_op (Top_probe_core i g) t = snd (topology_probe_core t i g)"
| "apply_topology_op Top_build t = snd (topology_build_cache_isolation_matrix t)"
| "apply_topology_op (Top_validate hard_fail) t = topology_validate t hard_fail"
| "apply_topology_op Top_seal t = snd (topology_seal t)"

fun run_topology_ops :: "topology_op list \<Rightarrow> topology_state \<Rightarrow> topology_state" where
  "run_topology_ops [] t = t"
| "run_topology_ops (a # as) t = run_topology_ops as (apply_topology_op a t)"

section \<open>Scripted providers and records\<close>

text \<open>
  A provider for the machine of the specification's first scenario: Intel, family 6,
  four cores, one NUMA node, no SMT, three cache levels, every feature present.
\<close>

definition minimal_pass_provider :: probe_provider where
  "minimal_pass_provider = \<lparr>
     boot_probe_cpu_info =
       (\<lambda>ci. (True, ci\<lparr>vendor := CPU_VENDOR_INTEL, family := 6, ci_valid := True\<rparr>)),
     boot_probe_cache_topology = (\<lambda>c. (True, c\<lparr>level_count := 3\<rparr>)),
     boot_probe_cpu_count = 4,
     boot_probe_numa_node_count = 1,
     boot_probe_smt_enabled = False,
     boot_probe_threads_per_core = 1,
     boot_probe_constant_time_support =
       (\<lambda>ct. (True, \<lparr>aes_ni = True, rdrand = True, rdseed = True,
                    constant_time_mul = True, constant_time_cmp = True, ct_valid = True\<rparr>)),
     boot_probe_cache_control =
       (\<lambda>cc. (True, \<lparr>clflush = True, clflushopt = True, clwb = True,
                    cat = True, cdp = True, cc_valid = True\<rparr>)),
     boot_probe_memory_protection =
       (\<lambda>mp. (True, \<lparr>nx = True, smep = True, smap = True, pku = True,
                    tme = True, mp_valid = True\<rparr>)),
     boot_probe_side_channel_mitigation =
       (\<lambda>scm. (True, \<lparr>ibrs = True, stibp = True, ssbd = True,
                     md_clear = True, scm_valid = True\<rparr>)),
     boot_probe_trng_available = True,
     boot_probe_total_memory_mb = 8192,
     boot_probe_uefi_boot = True,
     boot_probe_secure_boot_enabled = True\<rparr>"

text \<open>The same machine answering a later probe with a single core.\<close>

definition single_core_provider :: probe_provider where
  "single_core_provider = minimal_pass_provider\<lparr>boot_probe_cpu_count := 1\<rparr>"

text \<open>The same machine with no NUMA information and a failing constant-time probe.\<close>

definition degraded_provider :: probe_provider where
  "degraded_provider = minimal_pass_provider\<lparr>
     boot_probe_numa_node_count := 0,
     boot_probe_constant_time_support := (\<lambda>ct. (False, ct\<lparr>aes_ni := True, rdrand := True\<rparr>)),
     boot_probe_cache_control := (\<lambda>cc. (False, cc\<lparr>cat := True\<rparr>)),
     boot_probe_memory_protection := (\<lambda>mp. (False, mp\<lparr>tme := True\<rparr>)),
     boot_probe_side_channel_mitigation := (\<lambda>scm. (False, scm\<lparr>ibrs := True, stibp := True\<rparr>))\<rparr>"

text \<open>
  An x86-64 machine whose highest basic CPUID leaf is 4 (below \<^verbatim>\<open>0xB\<close>), with the HTT flag
  (leaf 1, EDX bit 28) set and a logical processor count of 2 (leaf 1, EBX bits 16 to 23).
\<close>

definition htt_leaf4_machine :: cpuid_machine where
  "htt_leaf4_machine leaf subleaf =
     (if leaf = 0 then (4, 0, 0, 0)
      else if leaf = 1 then (0, 0x20000, 0, 0x10000000)
      else (0, 0, 0, 0))"

definition htt_leaf4_provider :: probe_provider where
  "htt_leaf4_provider = minimal_pass_provider\<lparr>
     boot_probe_smt_enabled := x86_boot_probe_smt_enabled htt_leaf4_machine,
     boot_probe_threads_per_core := x86_boot_probe_threads_per_core htt_leaf4_machine\<rparr>"

text \<open>The same machine with SMT on and two threads per core.\<close>

definition smt2_provider :: probe_provider where
  "smt2_provider = minimal_pass_provider\<lparr>
     boot_probe_smt_enabled := True,
     boot_probe_threads_per_core := 2\<rparr>"

text \<open>
  A provider that answers the calls of a first probe as \<open>minimal_pass_provider\<close> does and
  differs where no call is made: the thread count (not asked for while SMT is off) and
  the CPU identity probe on a struct that is already valid.
\<close>

definition replay_provider :: probe_provider where
  "replay_provider = minimal_pass_provider\<lparr>
     boot_probe_cpu_info :=
       (\<lambda>ci. if ci_valid ci then (False, ci)
             else (True, ci\<lparr>vendor := CPU_VENDOR_INTEL, family := 6, ci_valid := True\<rparr>)),
     boot_probe_threads_per_core := 7\<rparr>"

text \<open>A caller's zeroed context; \<^verbatim>\<open>boot_validate\<close> re-initialises whatever it is handed.\<close>

definition fresh_ctx :: boot_validation_context where
  "fresh_ctx = \<lparr>errors = replicate 32 BOOT_ERROR_NONE, error_count = 0,
     worst_result = BOOT_VALIDATION_ACCEPT\<rparr>"

text \<open>The record after init, probe and validate on the first scenario's machine.\<close>

definition validated_facts :: boot_facts where
  "validated_facts =
     run_ops [Op_init, Op_probe minimal_pass_provider, Op_validate fresh_ctx] zero_boot_facts"

text \<open>The record after init, probe, validate and seal on the first scenario's machine.\<close>

definition sealed_facts :: boot_facts where
  "sealed_facts =
     run_ops [Op_init, Op_probe minimal_pass_provider, Op_validate fresh_ctx, Op_seal]
       zero_boot_facts"

text \<open>A validated record that is probed again and then reports a single core.\<close>

definition reprobed_facts :: boot_facts where
  "reprobed_facts =
     run_ops [Op_init, Op_probe minimal_pass_provider, Op_validate fresh_ctx,
              Op_probe single_core_provider]
       zero_boot_facts"

text \<open>The same machine answering a later probe with no CPU at all.\<close>

definition no_cpu_provider :: probe_provider where
  "no_cpu_provider = minimal_pass_provider\<lparr>boot_probe_cpu_count := 0\<rparr>"

text \<open>The record after init and a successful probe of the first scenario's machine.\<close>

definition probed_facts :: boot_facts where
  "probed_facts = run_ops [Op_init, Op_probe minimal_pass_provider] zero_boot_facts"

text \<open>
  A machine with one core, SMT on, an empty cache table, no TRNG, no secure boot, and
  feature probes that all fail; and the record after init and a probe of it.
\<close>

definition bare_provider :: probe_provider where
  "bare_provider = \<lparr>
     boot_probe_cpu_info = (\<lambda>ci. (True, ci)),
     boot_probe_cache_topology = (\<lambda>c. (True, c)),
     boot_probe_cpu_count = 1,
     boot_probe_numa_node_count = 0,
     boot_probe_smt_enabled = True,
     boot_probe_threads_per_core = 2,
     boot_probe_constant_time_support = (\<lambda>ct. (False, ct)),
     boot_probe_cache_control = (\<lambda>cc. (False, cc)),
     boot_probe_memory_protection = (\<lambda>mp. (False, mp)),
     boot_probe_side_channel_mitigation = (\<lambda>scm. (False, scm)),
     boot_probe_trng_available = False,
     boot_probe_total_memory_mb = 0,
     boot_probe_uefi_boot = False,
     boot_probe_secure_boot_enabled = False\<rparr>"

definition bare_facts :: boot_facts where
  "bare_facts = run_ops [Op_init, Op_probe bare_provider] zero_boot_facts"

text \<open>
  The first scenario's topology: four cores with private L1 and L2 and one shared L3,
  probed, built, validated without a hard failure, and sealed.
\<close>

definition scenario_core :: "u32 \<Rightarrow> core_geometry" where
  "scenario_core i = \<lparr>l1_domain = i, l2_domain = i, l3_domain = 0, cg_probed = False\<rparr>"

definition scenario_topology_ops :: "topology_op list" where
  "scenario_topology_ops =
     [Top_probe_core 0 (scenario_core 0), Top_probe_core 1 (scenario_core 1),
      Top_probe_core 2 (scenario_core 2), Top_probe_core 3 (scenario_core 3),
      Top_build, Top_validate False, Top_seal]"

definition scenario_topology0 :: topology_state where
  "scenario_topology0 =
     \<lparr>cores = (\<lambda>i. zero_core_geometry),
      core_count = 4,
      cache_isolation = \<lparr>isolation = (\<lambda>i j. CACHE_ISOLATED_NONE),
                         computed = False, cim_sealed = False\<rparr>,
      topo_probed = False, topo_validated = False, topo_sealed = False\<rparr>"

definition scenario_topology :: topology_state where
  "scenario_topology = run_topology_ops scenario_topology_ops scenario_topology0"

text \<open>Bookkeeping for the proofs about the context: 32 slots, at most \<open>k\<close> in use.\<close>

definition ctx_ok :: "nat \<Rightarrow> boot_validation_context \<Rightarrow> bool" where
  "ctx_ok k c \<longleftrightarrow> length (errors c) = 32 \<and> unat (error_count c) \<le> k"

text \<open>
  Bookkeeping for the proofs about the matrix: once computed, it is symmetric with a
  full diagonal on the cores of the topology; a sealed topology has a computed matrix.
\<close>

definition matrix_ok :: "topology_state \<Rightarrow> bool" where
  "matrix_ok t \<longleftrightarrow>
     (computed (cache_isolation t) \<longrightarrow>
        (\<forall>a < unat (core_count t). \<forall>b < unat (core_count t).
            isolation (cache_isolation t) a b = isolation (cache_isolation t) b a)
        \<and> (\<forall>a < unat (core_count t).
            isolation (cache_isolation t) a a = CACHE_ISOLATED_FULL))
     \<and> (topo_sealed t \<longrightarrow> computed (cache_isolation t))"

section \<open>Auxiliary facts\<close>

lemmas call_defs = call_cpu_info_def call_cache_topology_def call_cpu_count_def call_numa_node_count_def call_smt_enabled_def call_threads_per_core_def call_constant_time_support_def call_cache_control_def call_memory_protection_def call_side_channel_mitigation_def call_trng_available_def call_total_memory_mb_def call_uefi_boot_def call_secure_boot_enabled_def

lemmas step_defs = step_cpu_info_def step_cache_topology_def step_cpu_count_def step_numa_def step_smt_def step_constant_time_def step_cache_control_def step_memory_protection_def step_side_channel_def step_trng_def step_total_memory_def step_boot_mode_def

text \<open>What \<open>step_cpu_info\<close> leaves alone, and what it appends to the log.\<close>

lemma step_cpu_info_frame [simp]:
  "cache_topology (fst (snd (step_cpu_info p s))) = cache_topology (fst s)"
  "cpu_count (fst (snd (step_cpu_info p s))) = cpu_count (fst s)"
  "numa_nodes (fst (snd (step_cpu_info p s))) = numa_nodes (fst s)"
  "smt_enabled (fst (snd (step_cpu_info p s))) = smt_enabled (fst s)"
  "threads_per_core (fst (snd (step_cpu_info p s))) = threads_per_core (fst s)"
  "constant_time (fst (snd (step_cpu_info p s))) = constant_time (fst s)"
  "constant_time_supported (fst (snd (step_cpu_info p s))) = constant_time_supported (fst s)"
  "cache_control (fst (snd (step_cpu_info p s))) = cache_control (fst s)"
  "cache_partitioning_supported (fst (snd (step_cpu_info p s))) = cache_partitioning_supported (fst s)"
  "memory_protection (fst (snd (step_cpu_info p s))) = memory_protection (fst s)"
  "memory_encryption_supported (fst (snd (step_cpu_info p s))) = memory_encryption_supported (fst s)"
  "side_channel_mitigation (fst (snd (step_cpu_info p s))) = side_channel_mitigation (fst s)"
  "side_channel_mitigations_available (fst (snd (step_cpu_info p s))) = side_channel_mitigations_available (fst s)"
  "trng_available (fst (snd (step_cpu_info p s))) = trng_available (fst s)"
  "total_memory_mb (fst (snd (step_cpu_info p s))) = total_memory_mb (fst s)"
  "uefi_boot (fst (snd (step_cpu_info p s))) = uefi_boot (fst s)"
  "secure_boot_enabled (fst (snd (step_cpu_info p s))) = secure_boot_enabled (fst s)"
  "probed (fst (snd (step_cpu_info p s))) = probed (fst s)"
  "validated (fst (snd (step_cpu_info p s))) = validated (fst s)"
  "sealed (fst (snd (step_cpu_info p s))) = sealed (fst s)"
  by (simp_all add: step_cpu_info_def call_defs Let_def split_def)

lemma step_cpu_info_log [simp]:
  "snd (snd (step_cpu_info p s)) = snd s @ ([Call_cpu_info])"
  by (simp add: step_cpu_info_def call_defs Let_def split_def)

text \<open>What \<open>step_cache_topology\<close> leaves alone, and what it appends to the log.\<close>

lemma step_cache_topology_frame [simp]:
  "cpu_info (fst (snd (step_cache_topology p s))) = cpu_info (fst s)"
  "cpu_count (fst (snd (step_cache_topology p s))) = cpu_count (fst s)"
  "numa_nodes (fst (snd (step_cache_topology p s))) = numa_nodes (fst s)"
  "smt_enabled (fst (snd (step_cache_topology p s))) = smt_enabled (fst s)"
  "threads_per_core (fst (snd (step_cache_topology p s))) = threads_per_core (fst s)"
  "constant_time (fst (snd (step_cache_topology p s))) = constant_time (fst s)"
  "constant_time_supported (fst (snd (step_cache_topology p s))) = constant_time_supported (fst s)"
  "cache_control (fst (snd (step_cache_topology p s))) = cache_control (fst s)"
  "cache_partitioning_supported (fst (snd (step_cache_topology p s))) = cache_partitioning_supported (fst s)"
  "memory_protection (fst (snd (step_cache_topology p s))) = memory_protection (fst s)"
  "memory_encryption_supported (fst (snd (step_cache_topology p s))) = memory_encryption_supported (fst s)"
  "side_channel_mitigation (fst (snd (step_cache_topology p s))) = side_channel_mitigation (fst s)"
  "side_channel_mitigations_available (fst (snd (step_cache_topology p s))) = side_channel_mitigations_available (fst s)"
  "trng_available (fst (snd (step_cache_topology p s))) = trng_available (fst s)"
  "total_memory_mb (fst (snd (step_cache_topology p s))) = total_memory_mb (fst s)"
  "uefi_boot (fst (snd (step_cache_topology p s))) = uefi_boot (fst s)"
  "secure_boot_enabled (fst (snd (step_cache_topology p s))) = secure_boot_enabled (fst s)"
  "probed (fst (snd (step_cache_topology p s))) = probed (fst s)"
  "validated (fst (snd (step_cache_topology p s))) = validated (fst s)"
  "sealed (fst (snd (step_cache_topology p s))) = sealed (fst s)"
  by (simp_all add: step_cache_topology_def call_defs Let_def split_def)

lemma step_cache_topology_log [simp]:
  "snd (snd (step_cache_topology p s)) = snd s @ ([Call_cache_topology])"
  by (simp add: step_cache_topology_def call_defs Let_def split_def)

text \<open>What \<open>step_cpu_count\<close> leaves alone, and what it appends to the log.\<close>

lemma step_cpu_count_frame [simp]:
  "cpu_info (fst (step_cpu_count p s)) = cpu_info (fst s)"
  "cache_topology (fst (step_cpu_count p s)) = cache_topology (fst s)"
  "numa_nodes (fst (step_cpu_count p s)) = numa_nodes (fst s)"
  "smt_enabled (fst (step_cpu_count p s)) = smt_enabled (fst s)"
  "threads_per_core (fst (step_cpu_count p s)) = threads_per_core (fst s)"
  "constant_time (fst (step_cpu_count p s)) = constant_time (fst s)"
  "constant_time_supported (fst (step_cpu_count p s)) = constant_time_supported (fst s)"
  "cache_control (fst (step_cpu_count p s)) = cache_control (fst s)"
  "cache_partitioning_supported (fst (step_cpu_count p s)) = cache_partitioning_supported (fst s)"
  "memory_protection (fst (step_cpu_count p s)) = memory_protection (fst s)"
  "memory_encryption_supported (fst (step_cpu_count p s)) = memory_encryption_supported (fst s)"
  "side_channel_mitigation (fst (step_cpu_count p s)) = side_channel_mitigation (fst s)"
  "side_channel_mitigations_available (fst (step_cpu_count p s)) = side_channel_mitigations_available (fst s)"
  "trng_available (fst (step_cpu_count p s)) = trng_available (fst s)"
  "total_memory_mb (fst (step_cpu_count p s)) = total_memory_mb (fst s)"
  "uefi_boot (fst (step_cpu_count p s)) = uefi_boot (fst s)"
  "secure_boot_enabled (fst (step_cpu_count p s)) = secure_boot_enabled (fst s)"
  "probed (fst (step_cpu_count p s)) = probed (fst s)"
  "validated (fst (step_cpu_count p s)) = validated (fst s)"
  "sealed (fst (step_cpu_count p s)) = sealed (fst s)"
  by (simp_all add: step_cpu_count_def call_defs Let_def split_def)

lemma step_cpu_count_log [simp]:
  "snd (step_cpu_count p s) = snd s @ ([Call_cpu_count])"
  by (simp add: step_cpu_count_def call_defs Let_def split_def)

text \<open>What \<open>step_numa\<close> leaves alone, and what it appends to the log.\<close>

lemma step_numa_frame [simp]:
  "cpu_info (fst (step_numa p s)) = cpu_info (fst s)"
  "cache_topology (fst (step_numa p s)) = cache_topology (fst s)"
  "cpu_count (fst (step_numa p s)) = cpu_count (fst s)"
  "smt_enabled (fst (step_numa p s)) = smt_enabled (fst s)"
  "threads_per_core (fst (step_numa p s)) = threads_per_core (fst s)"
  "constant_time (fst (step_numa p s)) = constant_time (fst s)"
  "constant_time_supported (fst (step_numa p s)) = constant_time_supported (fst s)"
  "cache_control (fst (step_numa p s)) = cache_control (fst s)"
  "cache_partitioning_supported (fst (step_numa p s)) = cache_partitioning_supported (fst s)"
  "memory_protection (fst (step_numa p s)) = memory_protection (fst s)"
  "memory_encryption_supported (fst (step_numa p s)) = memory_encryption_supported (fst s)"
  "side_channel_mitigation (fst (step_numa p s)) = side_channel_mitigation (fst s)"
  "side_channel_mitigations_available (fst (step_numa p s)) = side_channel_mitigations_available (fst s)"
  "trng_available (fst (step_numa p s)) = trng_available (fst s)"
  "total_memory_mb (fst (step_numa p s)) = total_memory_mb (fst s)"
  "uefi_boot (fst (step_numa p s)) = uefi_boot (fst s)"
  "secure_boot_enabled (fst (step_numa p s)) = secure_boot_enabled (fst s)"
  "probed (fst (step_numa p s)) = probed (fst s)"
  "validated (fst (step_numa p s)) = validated (fst s)"
  "sealed (fst (step_numa p s)) = sealed (fst s)"
  by (simp_all add: step_numa_def call_defs Let_def split_def)

lemma step_numa_log [simp]:
  "snd (step_numa p s) = snd s @ ([Call_numa_node_count])"
  by (simp add: step_numa_def call_defs Let_def split_def)

text \<open>What \<open>step_smt\<close> leaves alone, and what it appends to the log.\<close>

lemma step_smt_frame [simp]:
  "cpu_info (fst (step_smt p s)) = cpu_info (fst s)"
  "cache_topology (fst (step_smt p s)) = cache_topology (fst s)"
  "cpu_count (fst (step_smt p s)) = cpu_count (fst s)"
  "numa_nodes (fst (step_smt p s)) = numa_nodes (fst s)"
  "constant_time (fst (step_smt p s)) = constant_time (fst s)"
  "constant_time_supported (fst (step_smt p s)) = constant_time_supported (fst s)"
  "cache_control (fst (step_smt p s)) = cache_control (fst s)"
  "cache_partitioning_supported (fst (step_smt p s)) = cache_partitioning_supported (fst s)"
  "memory_protection (fst (step_smt p s)) = memory_protection (fst s)"
  "memory_encryption_supported (fst (step_smt p s)) = memory_encryption_supported (fst s)"
  "side_channel_mitigation (fst (step_smt p s)) = side_channel_mitigation (fst s)"
  "side_channel_mitigations_available (fst (step_smt p s)) = side_channel_mitigations_available (fst s)"
  "trng_available (fst (step_smt p s)) = trng_available (fst s)"
  "total_memory_mb (fst (step_smt p s)) = total_memory_mb (fst s)"
  "uefi_boot (fst (step_smt p s)) = uefi_boot (fst s)"
  "secure_boot_enabled (fst (step_smt p s)) = secure_boot_enabled (fst s)"
  "probed (fst (step_smt p s)) = probed (fst s)"
  "validated (fst (step_smt p s)) = validated (fst s)"
  "sealed (fst (step_smt p s)) = sealed (fst s)"
  by (simp_all add: step_smt_def call_defs Let_def split_def)

lemma step_smt_log [simp]:
  "snd (step_smt p s) = snd s @ (Call_smt_enabled # (if boot_probe_smt_enabled p then [Call_threads_per_core] else []))"
  by (simp add: step_smt_def call_defs Let_def split_def)

text \<open>What \<open>step_constant_time\<close> leaves alone, and what it appends to the log.\<close>

lemma step_constant_time_frame [simp]:
  "cpu_info (fst (step_constant_time p s)) = cpu_info (fst s)"
  "cache_topology (fst (step_constant_time p s)) = cache_topology (fst s)"
  "cpu_count (fst (step_constant_time p s)) = cpu_count (fst s)"
  "numa_nodes (fst (step_constant_time p s)) = numa_nodes (fst s)"
  "smt_enabled (fst (step_constant_time p s)) = smt_enabled (fst s)"
  "threads_per_core (fst (step_constant_time p s)) = threads_per_core (fst s)"
  "cache_control (fst (step_constant_time p s)) = cache_control (fst s)"
  "cache_partitioning_supported (fst (step_constant_time p s)) = cache_partitioning_supported (fst s)"
  "memory_protection (fst (step_constant_time p s)) = memory_protection (fst s)"
  "memory_encryption_supported (fst (step_constant_time p s)) = memory_encryption_supported (fst s)"
  "side_channel_mitigation (fst (step_constant_time p s)) = side_channel_mitigation (fst s)"
  "side_channel_mitigations_available (fst (step_constant_time p s)) = side_channel_mitigations_available (fst s)"
  "trng_available (fst (step_constant_time p s)) = trng_available (fst s)"
  "total_memory_mb (fst (step_constant_time p s)) = total_memory_mb (fst s)"
  "uefi_boot (fst (step_constant_time p s)) = uefi_boot (fst s)"
  "secure_boot_enabled (fst (step_constant_time p s)) = secure_boot_enabled (fst s)"
  "probed (fst (step_constant_time p s)) = probed (fst s)"
  "validated (fst (step_constant_time p s)) = validated (fst s)"
  "sealed (fst (step_constant_time p s)) = sealed (fst s)"
  by (simp_all add: step_constant_time_def call_defs Let_def split_def)

lemma step_constant_time_log [simp]:
  "snd (step_constant_time p s) = snd s @ ([Call_constant_time_support])"
  by (simp add: step_constant_time_def call_defs Let_def split_def)

text \<open>What \<open>step_cache_control\<close> leaves alone, and what it appends to the log.\<close>

lemma step_cache_control_frame [simp]:
  "cpu_info (fst (step_cache_control p s)) = cpu_info (fst s)"
  "cache_topology (fst (step_cache_control p s)) = cache_topology (fst s)"
  "cpu_count (fst (step_cache_control p s)) = cpu_count (fst s)"
  "numa_nodes (fst (step_cache_control p s)) = numa_nodes (fst s)"
  "smt_enabled (fst (step_cache_control p s)) = smt_enabled (fst s)"
  "threads_per_core (fst (step_cache_control p s)) = threads_per_core (fst s)"
  "constant_time (fst (step_cache_control p s)) = constant_time (fst s)"
  "constant_time_supported (fst (step_cache_control p s)) = constant_time_supported (fst s)"
  "memory_protection (fst (step_cache_control p s)) = memory_protection (fst s)"
  "memory_encryption_supported (fst (step_cache_control p s)) = memory_encryption_supported (fst s)"
  "side_channel_mitigation (fst (step_cache_control p s)) = side_channel_mitigation (fst s)"
  "side_channel_mitigations_available (fst (step_cache_control p s)) = side_channel_mitigations_available (fst s)"
  "trng_available (fst (step_cache_control p s)) = trng_available (fst s)"
  "total_memory_mb (fst (step_cache_control p s)) = total_memory_mb (fst s)"
  "uefi_boot (fst (step_cache_control p s)) = uefi_boot (fst s)"
  "secure_boot_enabled (fst (step_cache_control p s)) = secure_boot_enabled (fst s)"
  "probed (fst (step_cache_control p s)) = probed (fst s)"
  "validated (fst (step_cache_control p s)) = validated (fst s)"
  "sealed (fst (step_cache_control p s)) = sealed (fst s)"
  by (simp_all add: step_cache_control_def call_defs Let_def split_def)

lemma step_cache_control_log [simp]:
  "snd (step_cache_control p s) = snd s @ ([Call_cache_control])"
  by (simp add: step_cache_control_def call_defs Let_def split_def)

text \<open>What \<open>step_memory_protection\<close> leaves alone, and what it appends to the log.\<close>

lemma step_memory_protection_frame [simp]:
  "cpu_info (fst (step_memory_protection p s)) = cpu_info (fst s)"
  "cache_topology (fst (step_memory_protection p s)) = cache_topology (fst s)"
  "cpu_count (fst (step_memory_protection p s)) = cpu_count (fst s)"
  "numa_nodes (fst (step_memory_protection p s)) = numa_nodes (fst s)"
  "smt_enabled (fst (step_memory_protection p s)) = smt_enabled (fst s)"
  "threads_per_core (fst (step_memory_protection p s)) = threads_per_core (fst s)"
  "constant_time (fst (step_memory_protection p s)) = constant_time (fst s)"
  "constant_time_supported (fst (step_memory_protection p s)) = constant_time_supported (fst s)"
  "cache_control (fst (step_memory_protection p s)) = cache_control (fst s)"
  "cache_partitioning_supported (fst (step_memory_protection p s)) = cache_partitioning_supported (fst s)"
  "side_channel_mitigation (fst (step_memory_protection p s)) = side_channel_mitigation (fst s)"
  "side_channel_mitigations_available (fst (step_memory_protection p s)) = side_channel_mitigations_available (fst s)"
  "trng_available (fst (step_memory_protection p s)) = trng_available (fst s)"
  "total_memory_mb (fst (step_memory_protection p s)) = total_memory_mb (fst s)"
  "uefi_boot (fst (step_memory_protection p s)) = uefi_boot (fst s)"
  "secure_boot_enabled (fst (step_memory_protection p s)) = secure_boot_enabled (fst s)"
  "probed (fst (step_memory_protection p s)) = probed (fst s)"
  "validated (fst (step_memory_protection p s)) = validated (fst s)"
  "sealed (fst (step_memory_protection p s)) = sealed (fst s)"
  by (simp_all add: step_memory_protection_def call_defs Let_def split_def)

lemma step_memory_protection_log [simp]:
  "snd (step_memory_protection p s) = snd s @ ([Call_memory_protection])"
  by (simp add: step_memory_protection_def call_defs Let_def split_def)

text \<open>What \<open>step_side_channel\<close> leaves alone, and what it appends to the log.\<close>

lemma step_side_channel_frame [simp]:
  "cpu_info (fst (step_side_channel p s)) = cpu_info (fst s)"
  "cache_topology (fst (step_side_channel p s)) = cache_topology (fst s)"
  "cpu_count (fst (step_side_channel p s)) = cpu_count (fst s)"
  "numa_nodes (fst (step_side_channel p s)) = numa_nodes (fst s)"
  "smt_enabled (fst (step_side_channel p s)) = smt_enabled (fst s)"
  "threads_per_core (fst (step_side_channel p s)) = threads_per_core (fst s)"
  "constant_time (fst (step_side_channel p s)) = constant_time (fst s)"
  "constant_time_supported (fst (step_side_channel p s)) = constant_time_supported (fst s)"
  "cache_control (fst (step_side_channel p s)) = cache_control (fst s)"
  "cache_partitioning_supported (fst (step_side_channel p s)) = cache_partitioning_supported (fst s)"
  "memory_protection (fst (step_side_channel p s)) = memory_protection (fst s)"
  "memory_encryption_supported (fst (step_side_channel p s)) = memory_encryption_supported (fst s)"
  "trng_available (fst (step_side_channel p s)) = trng_available (fst s)"
  "total_memory_mb (fst (step_side_channel p s)) = total_memory_mb (fst s)"
  "uefi_boot (fst (step_side_channel p s)) = uefi_boot (fst s)"
  "secure_boot_enabled (fst (step_side_channel p s)) = secure_boot_enabled (fst s)"
  "probed (fst (step_side_channel p s)) = probed (fst s)"
  "validated (fst (step_side_channel p s)) = validated (fst s)"
  "sealed (fst (step_side_channel p s)) = sealed (fst s)"
  by (simp_all add: step_side_channel_def call_defs Let_def split_def)

lemma step_side_channel_log [simp]:
  "snd (step_side_channel p s) = snd s @ ([Call_side_channel_mitigation])"
  by (simp add: step_side_channel_def call_defs Let_def split_def)

text \<open>What \<open>step_trng\<close> leaves alone, and what it appends to the log.\<close>

lemma step_trng_frame [simp]:
  "cpu_info (fst (step_trng p s)) = cpu_info (fst s)"
  "cache_topology (fst (step_trng p s)) = cache_topology (fst s)"
  "cpu_count (fst (step_trng p s)) = cpu_count (fst s)"
  "numa_nodes (fst (step_trng p s)) = numa_nodes (fst s)"
  "smt_enabled (fst (step_trng p s)) = smt_enabled (fst s)"
  "threads_per_core (fst (step_trng p s)) = threads_per_core (fst s)"
  "constant_time (fst (step_trng p s)) = constant_time (fst s)"
  "constant_time_supported (fst (step_trng p s)) = constant_time_supported (fst s)"
  "cache_control (fst (step_trng p s)) = cache_control (fst s)"
  "cache_partitioning_supported (fst (step_trng p s)) = cache_partitioning_supported (fst s)"
  "memory_protection (fst (step_trng p s)) = memory_protection (fst s)"
  "memory_encryption_supported (fst (step_trng p s)) = memory_encryption_supported (fst s)"
  "side_channel_mitigation (fst (step_trng p s)) = side_channel_mitigation (fst s)"
  "side_channel_mitigations_available (fst (step_trng p s)) = side_channel_mitigations_available (fst s)"
  "total_memory_mb (fst (step_trng p s)) = total_memory_mb (fst s)"
  "uefi_boot (fst (step_trng p s)) = uefi_boot (fst s)"
  "secure_boot_enabled (fst (step_trng p s)) = secure_boot_enabled (fst s)"
  "probed (fst (step_trng p s)) = probed (fst s)"
  "validated (fst (step_trng p s)) = validated (fst s)"
  "sealed (fst (step_trng p s)) = sealed (fst s)"
  by (simp_all add: step_trng_def call_defs Let_def split_def)

lemma step_trng_log [simp]:
  "snd (step_trng p s) = snd s @ ([Call_trng_available])"
  by (simp add: step_trng_def call_defs Let_def split_def)

text \<open>What \<open>step_total_memory\<close> leaves alone, and what it appends to the log.\<close>

lemma step_total_memory_frame [simp]:
  "cpu_info (fst (step_total_memory p s)) = cpu_info (fst s)"
  "cache_topology (fst (step_total_memory p s)) = cache_topology (fst s)"
  "cpu_count (fst (step_total_memory p s)) = cpu_count (fst s)"
  "numa_nodes (fst (step_total_memory p s)) = numa_nodes (fst s)"
  "smt_enabled (fst (step_total_memory p s)) = smt_enabled (fst s)"
  "threads_per_core (fst (step_total_memory p s)) = threads_per_core (fst s)"
  "constant_time (fst (step_total_memory p s)) = constant_time (fst s)"
  "constant_time_supported (fst (step_total_memory p s)) = constant_time_supported (fst s)"
  "cache_control (fst (step_total_memory p s)) = cache_control (fst s)"
  "cache_partitioning_supported (fst (step_total_memory p s)) = cache_partitioning_supported (fst s)"
  "memory_protection (fst (step_total_memory p s)) = memory_protection (fst s)"
  "memory_encryption_supported (fst (step_total_memory p s)) = memory_encryption_supported (fst s)"
  "side_channel_mitigation (fst (step_total_memory p s)) = side_channel_mitigation (fst s)"
  "side_channel_mitigations_available (fst (step_total_memory p s)) = side_channel_mitigations_available (fst s)"
  "trng_available (fst (step_total_memory p s)) = trng_available (fst s)"
  "uefi_boot (fst (step_total_memory p s)) = uefi_boot (fst s)"
  "secure_boot_enabled (fst (step_total_memory p s)) = secure_boot_enabled (fst s)"
  "probed (fst (step_total_memory p s)) = probed (fst s)"
  "validated (fst (step_total_memory p s)) = validated (fst s)"
  "sealed (fst (step_total_memory p s)) = sealed (fst s)"
  by (simp_all add: step_total_memory_def call_defs Let_def split_def)

lemma step_total_memory_log [simp]:
  "snd (step_total_memory p s) = snd s @ ([Call_total_memory_mb])"
  by (simp add: step_total_memory_def call_defs Let_def split_def)

text \<open>What \<open>step_boot_mode\<close> leaves alone, and what it appends to the log.\<close>

lemma step_boot_mode_frame [simp]:
  "cpu_info (fst (step_boot_mode p s)) = cpu_info (fst s)"
  "cache_topology (fst (step_boot_mode p s)) = cache_topology (fst s)"
  "cpu_count (fst (step_boot_mode p s)) = cpu_count (fst s)"
  "numa_nodes (fst (step_boot_mode p s)) = numa_nodes (fst s)"
  "smt_enabled (fst (step_boot_mode p s)) = smt_enabled (fst s)"
  "threads_per_core (fst (step_boot_mode p s)) = threads_per_core (fst s)"
  "constant_time (fst (step_boot_mode p s)) = constant_time (fst s)"
  "constant_time_supported (fst (step_boot_mode p s)) = constant_time_supported (fst s)"
  "cache_control (fst (step_boot_mode p s)) = cache_control (fst s)"
  "cache_partitioning_supported (fst (step_boot_mode p s)) = cache_partitioning_supported (fst s)"
  "memory_protection (fst (step_boot_mode p s)) = memory_protection (fst s)"
  "memory_encryption_supported (fst (step_boot_mode p s)) = memory_encryption_supported (fst s)"
  "side_channel_mitigation (fst (step_boot_mode p s)) = side_channel_mitigation (fst s)"
  "side_channel_mitigations_available (fst (step_boot_mode p s)) = side_channel_mitigations_available (fst s)"
  "trng_available (fst (step_boot_mode p s)) = trng_available (fst s)"
  "total_memory_mb (fst (step_boot_mode p s)) = total_memory_mb (fst s)"
  "probed (fst (step_boot_mode p s)) = probed (fst s)"
  "validated (fst (step_boot_mode p s)) = validated (fst s)"
  "sealed (fst (step_boot_mode p s)) = sealed (fst s)"
  by (simp_all add: step_boot_mode_def call_defs Let_def split_def)

lemma step_boot_mode_log [simp]:
  "snd (step_boot_mode p s) = snd s @ ([Call_uefi_boot, Call_secure_boot_enabled])"
  by (simp add: step_boot_mode_def call_defs Let_def split_def)

text \<open>What each step writes.\<close>

lemma step_cpu_info_val [simp]:
  "fst (step_cpu_info p s) = fst (boot_probe_cpu_info p (cpu_info (fst s)))"
  "cpu_info (fst (snd (step_cpu_info p s))) = snd (boot_probe_cpu_info p (cpu_info (fst s)))"
  by (simp_all add: step_cpu_info_def call_defs Let_def split_def)

lemma step_cache_topology_val [simp]:
  "fst (step_cache_topology p s) = fst (boot_probe_cache_topology p (cache_topology (fst s)))"
  "cache_topology (fst (snd (step_cache_topology p s)))
     = snd (boot_probe_cache_topology p (cache_topology (fst s)))"
  by (simp_all add: step_cache_topology_def call_defs Let_def split_def)

lemma step_cpu_count_val [simp]:
  "cpu_count (fst (step_cpu_count p s)) = boot_probe_cpu_count p"
  by (simp add: step_cpu_count_def call_defs Let_def split_def)

lemma step_numa_val [simp]:
  "numa_nodes (fst (step_numa p s)) =
     (if boot_probe_numa_node_count p = 0 then 1 else boot_probe_numa_node_count p)"
  by (simp add: step_numa_def call_defs Let_def split_def)

lemma step_smt_val [simp]:
  "smt_enabled (fst (step_smt p s)) = boot_probe_smt_enabled p"
  "threads_per_core (fst (step_smt p s)) =
     (if boot_probe_smt_enabled p then boot_probe_threads_per_core p else 1)"
  by (simp_all add: step_smt_def call_defs Let_def split_def)

lemma step_constant_time_val [simp]:
  "constant_time (fst (step_constant_time p s)) =
     (if fst (boot_probe_constant_time_support p (constant_time (fst s)))
      then snd (boot_probe_constant_time_support p (constant_time (fst s)))
      else (snd (boot_probe_constant_time_support p (constant_time (fst s))))
             \<lparr>ct_valid := False\<rparr>)"
  "constant_time_supported (fst (step_constant_time p s)) =
     (ct_valid (constant_time (fst (step_constant_time p s)))
      \<and> aes_ni (constant_time (fst (step_constant_time p s)))
      \<and> rdrand (constant_time (fst (step_constant_time p s))))"
  by (simp_all add: step_constant_time_def call_defs Let_def split_def)

lemma step_cache_control_val [simp]:
  "cache_control (fst (step_cache_control p s)) =
     (if fst (boot_probe_cache_control p (cache_control (fst s)))
      then snd (boot_probe_cache_control p (cache_control (fst s)))
      else (snd (boot_probe_cache_control p (cache_control (fst s))))\<lparr>cc_valid := False\<rparr>)"
  "cache_partitioning_supported (fst (step_cache_control p s)) =
     (cc_valid (cache_control (fst (step_cache_control p s)))
      \<and> (cat (cache_control (fst (step_cache_control p s)))
           \<or> cdp (cache_control (fst (step_cache_control p s)))))"
  by (simp_all add: step_cache_control_def call_defs Let_def split_def)

lemma step_memory_protection_val [simp]:
  "memory_protection (fst (step_memory_protection p s)) =
     (if fst (boot_probe_memory_protection p (memory_protection (fst s)))
      then snd (boot_probe_memory_protection p (memory_protection (fst s)))
      else (snd (boot_probe_memory_protection p (memory_protection (fst s))))
             \<lparr>mp_valid := False\<rparr>)"
  "memory_encryption_supported (fst (step_memory_protection p s)) =
     (mp_valid (memory_protection (fst (step_memory_protection p s)))
      \<and> tme (memory_protection (fst (step_memory_protection p s))))"
  by (simp_all add: step_memory_protection_def call_defs Let_def split_def)

lemma step_side_channel_val [simp]:
  "side_channel_mitigation (fst (step_side_channel p s)) =
     (if fst (boot_probe_side_channel_mitigation p (side_channel_mitigation (fst s)))
      then snd (boot_probe_side_channel_mitigation p (side_channel_mitigation (fst s)))
      else (snd (boot_probe_side_channel_mitigation p (side_channel_mitigation (fst s))))
             \<lparr>scm_valid := False\<rparr>)"
  "side_channel_mitigations_available (fst (step_side_channel p s)) =
     (scm_valid (side_channel_mitigation (fst (step_side_channel p s)))
      \<and> ibrs (side_channel_mitigation (fst (step_side_channel p s)))
      \<and> stibp (side_channel_mitigation (fst (step_side_channel p s))))"
  by (simp_all add: step_side_channel_def call_defs Let_def split_def)

lemma step_trng_val [simp]:
  "trng_available (fst (step_trng p s)) = boot_probe_trng_available p"
  by (simp add: step_trng_def call_defs Let_def split_def)

lemma step_total_memory_val [simp]:
  "total_memory_mb (fst (step_total_memory p s)) = boot_probe_total_memory_mb p"
  by (simp add: step_total_memory_def call_defs Let_def split_def)

lemma step_boot_mode_val [simp]:
  "uefi_boot (fst (step_boot_mode p s)) = boot_probe_uefi_boot p"
  "secure_boot_enabled (fst (step_boot_mode p s)) = boot_probe_secure_boot_enabled p"
  by (simp_all add: step_boot_mode_def call_defs Let_def split_def)

text \<open>The run as a whole.\<close>

lemma boot_probe_sealed: "sealed f \<Longrightarrow> boot_probe p f = (False, f, [])"
  by (simp add: boot_probe_def)

lemma probe_ok_iff:
  "probe_ok (boot_probe p f) \<longleftrightarrow>
     \<not> sealed f \<and> fst (boot_probe_cpu_info p (cpu_info f))
     \<and> fst (boot_probe_cache_topology p (cache_topology f))
     \<and> boot_probe_cpu_count p \<noteq> 0"
  by (simp add: boot_probe_def probe_ok_def Let_def split_def)

lemma probe_sealed_same: "sealed (probe_facts (boot_probe p f)) = sealed f"
  by (simp add: boot_probe_def probe_facts_def Let_def split_def)

lemma probe_validated_same: "validated (probe_facts (boot_probe p f)) = validated f"
  by (simp add: boot_probe_def probe_facts_def Let_def split_def)

lemma probe_probed:
  "probed (probe_facts (boot_probe p f)) = (probed f \<or> probe_ok (boot_probe p f))"
  by (simp add: boot_probe_def probe_facts_def probe_ok_def Let_def split_def)

lemma probe_numa_nodes:
  "probe_ok (boot_probe p f) \<Longrightarrow>
     numa_nodes (probe_facts (boot_probe p f)) =
       (if boot_probe_numa_node_count p = 0 then 1 else boot_probe_numa_node_count p)"
  by (simp add: boot_probe_def probe_facts_def probe_ok_def Let_def split_def split: if_splits)

lemma probe_smt:
  "probe_ok (boot_probe p f) \<Longrightarrow>
     smt_enabled (probe_facts (boot_probe p f)) = boot_probe_smt_enabled p \<and>
     threads_per_core (probe_facts (boot_probe p f)) =
       (if boot_probe_smt_enabled p then boot_probe_threads_per_core p else 1)"
  by (simp add: boot_probe_def probe_facts_def probe_ok_def Let_def split_def split: if_splits)

lemma probe_calls_eq:
  "\<not> sealed f \<Longrightarrow> probe_calls (boot_probe p f) =
     (if \<not> fst (boot_probe_cpu_info p (cpu_info f)) then [Call_cpu_info]
      else if \<not> fst (boot_probe_cache_topology p (cache_topology f))
        then [Call_cpu_info, Call_cache_topology]
      else if boot_probe_cpu_count p = 0
        then [Call_cpu_info, Call_cache_topology, Call_cpu_count]
      else [Call_cpu_info, Call_cache_topology, Call_cpu_count, Call_numa_node_count,
            Call_smt_enabled]
           @ (if boot_probe_smt_enabled p then [Call_threads_per_core] else [])
           @ [Call_constant_time_support, Call_cache_control, Call_memory_protection,
              Call_side_channel_mitigation, Call_trng_available, Call_total_memory_mb,
              Call_uefi_boot, Call_secure_boot_enabled])"
  by (simp add: boot_probe_def probe_calls_def Let_def split_def)

lemma worst_add: "worst_result (boot_validation_context_add_error c e s) =
  (if result_value s > result_value (worst_result c) then s else worst_result c)"
  by (simp add: boot_validation_context_add_error_def Let_def)

lemma worst_init: "worst_result (boot_validation_context_init c) = BOOT_VALIDATION_ACCEPT"
  by (simp add: boot_validation_context_init_def)

lemma validate_result_eq:
  "validate_result (boot_validate f c) =
    (if \<not> probed f \<or> cpu_count f < 2 \<or> level_count (cache_topology f) = 0 \<or> numa_nodes f < 1
     then BOOT_VALIDATION_HARD_FAIL
     else if \<not> constant_time_supported f \<or> \<not> trng_available f \<or> smt_enabled f
             \<or> \<not> secure_boot_enabled f
     then BOOT_VALIDATION_WARN else BOOT_VALIDATION_ACCEPT)"
  by (simp add: boot_validate_def validate_result_def Let_def worst_add worst_init)

lemma validate_result_worst:
  "validate_result (boot_validate f c) = worst_result (validate_ctx (boot_validate f c))"
  by (simp add: boot_validate_def validate_result_def validate_ctx_def Let_def worst_add worst_init)

lemma validate_facts_eq:
  "validate_facts (boot_validate f c) =
    (if validate_result (boot_validate f c) = BOOT_VALIDATION_HARD_FAIL then f
     else f\<lparr>validated := True\<rparr>)"
  by (simp add: boot_validate_def validate_result_def validate_facts_def Let_def worst_add worst_init)

lemma add_error_recorded:
  assumes "length (errors c) = 32" and "error_count c < 32"
  shows "recorded_errors (boot_validation_context_add_error c e s) = recorded_errors c @ [e]"
    and "error_count (boot_validation_context_add_error c e s) = error_count c + 1"
    and "length (errors (boot_validation_context_add_error c e s)) = 32"
proof -
  have lt: "unat (error_count c) < 32"
    using assms(2) by (simp add: word_less_nat_alt)
  then have suc: "unat (error_count c + 1) = Suc (unat (error_count c))"
    by (simp add: unat_word_ariths)
  have "take (Suc (unat (error_count c))) ((errors c)[unat (error_count c) := e])
          = take (unat (error_count c)) (errors c) @ [e]"
    using lt assms(1) by (simp add: take_Suc_conv_app_nth)
  then show "recorded_errors (boot_validation_context_add_error c e s) = recorded_errors c @ [e]"
    using assms(2) suc
    by (simp add: recorded_errors_def boot_validation_context_add_error_def Let_def)
  show "error_count (boot_validation_context_add_error c e s) = error_count c + 1"
    using assms(2) by (simp add: boot_validation_context_add_error_def Let_def)
  show "length (errors (boot_validation_context_add_error c e s)) = 32"
    using assms by (simp add: boot_validation_context_add_error_def Let_def)
qed

lemma ctx_ok_init: "ctx_ok 0 (boot_validation_context_init c)"
  by (simp add: ctx_ok_def boot_validation_context_init_def)

lemma recorded_init: "recorded_errors (boot_validation_context_init c) = []"
  by (simp add: recorded_errors_def boot_validation_context_init_def)

lemma cond_add:
  assumes "ctx_ok k c" and "k < 32"
  shows "ctx_ok (Suc k) (if b then boot_validation_context_add_error c e s else c)"
    and "recorded_errors (if b then boot_validation_context_add_error c e s else c)
           = recorded_errors c @ (if b then [e] else [])"
proof -
  have len: "length (errors c) = 32" and le: "unat (error_count c) \<le> k"
    using assms(1) by (simp_all add: ctx_ok_def)
  have lt: "error_count c < 32"
    using le assms(2) by (simp add: word_less_nat_alt)
  have "unat (error_count c + 1) = Suc (unat (error_count c))"
    using le assms(2) by (simp add: unat_word_ariths)
  then show "ctx_ok (Suc k) (if b then boot_validation_context_add_error c e s else c)"
    using add_error_recorded(2,3)[OF len lt] len le by (simp add: ctx_ok_def)
  show "recorded_errors (if b then boot_validation_context_add_error c e s else c)
           = recorded_errors c @ (if b then [e] else [])"
    using add_error_recorded(1)[OF len lt] by simp
qed



lemmas eval_defs = validated_facts_def sealed_facts_def reprobed_facts_def
  boot_init_def zero_boot_facts_def zero_cpu_info_def zero_cache_topology_def zero_cache_info_def
  zero_constant_time_def zero_cache_control_def zero_memory_protection_def
  zero_side_channel_mitigation_def MAX_CACHE_LEVELS_def
  boot_probe_def step_defs call_defs probe_ok_def probe_facts_def probe_calls_def
  boot_validate_def boot_validation_context_init_def boot_validation_context_add_error_def
  validate_result_def validate_facts_def validate_ctx_def
  boot_seal_def minimal_pass_provider_def single_core_provider_def degraded_provider_def
  smt2_provider_def replay_provider_def htt_leaf4_provider_def
  no_cpu_provider_def probed_facts_def bare_provider_def bare_facts_def
  fresh_ctx_def Let_def split_def

lemma vf_flags: "probed validated_facts \<and> validated validated_facts \<and> \<not> sealed validated_facts"
  by (simp add: eval_defs)

lemma sf_flags: "probed sealed_facts \<and> validated sealed_facts \<and> sealed sealed_facts"
  by (simp add: eval_defs)

lemma rf_flags: "probed reprobed_facts \<and> validated reprobed_facts \<and> \<not> sealed reprobed_facts
  \<and> validate_result (boot_validate reprobed_facts fresh_ctx) = BOOT_VALIDATION_HARD_FAIL"
  by (simp add: eval_defs)

lemma validated_update_id: "validated f \<Longrightarrow> f\<lparr>validated := True\<rparr> = f"
  by (cases f) simp

lemma validate_ctx_if:
  "validate_ctx (if a then (x1, y1, z1) else if b then (x2, y2, z) else (x3, y3, z))
     = (if a then z1 else z)"
  by (simp add: validate_ctx_def)

lemma recorded_validate:
  "recorded_errors (validate_ctx (boot_validate f c)) =
    (if \<not> probed f then [BOOT_ERROR_CPU_DETECTION_FAILED]
     else (if cpu_count f < 2 then [BOOT_ERROR_TOO_FEW_CORES] else [])
        @ (if level_count (cache_topology f) = 0 then [BOOT_ERROR_NO_CACHE] else [])
        @ (if numa_nodes f < 1 then [BOOT_ERROR_NO_NUMA] else [])
        @ (if \<not> constant_time_supported f then [BOOT_ERROR_NO_CONSTANT_TIME_SUPPORT] else [])
        @ (if \<not> trng_available f then [BOOT_ERROR_NO_TRNG] else [])
        @ (if smt_enabled f then [BOOT_ERROR_SMT_ENABLED_NOT_ALLOWED] else [])
        @ (if \<not> secure_boot_enabled f then [BOOT_ERROR_SECURE_BOOT_DISABLED] else []))"
    (is "?L = ?R")
  and count_validate: "unat (error_count (validate_ctx (boot_validate f c))) \<le> 7"
  and length_validate: "length (errors (validate_ctx (boot_validate f c))) = 32"
proof -
  define c0 where "c0 = boot_validation_context_init c"
  define c1 where "c1 = (if cpu_count f < 2
      then boot_validation_context_add_error c0 BOOT_ERROR_TOO_FEW_CORES BOOT_VALIDATION_HARD_FAIL
      else c0)"
  define c2 where "c2 = (if level_count (cache_topology f) = 0
      then boot_validation_context_add_error c1 BOOT_ERROR_NO_CACHE BOOT_VALIDATION_HARD_FAIL
      else c1)"
  define c3 where "c3 = (if numa_nodes f < 1
      then boot_validation_context_add_error c2 BOOT_ERROR_NO_NUMA BOOT_VALIDATION_HARD_FAIL
      else c2)"
  define c4 where "c4 = (if \<not> constant_time_supported f
      then boot_validation_context_add_error c3 BOOT_ERROR_NO_CONSTANT_TIME_SUPPORT BOOT_VALIDATION_WARN
      else c3)"
  define c5 where "c5 = (if \<not> trng_available f
      then boot_validation_context_add_error c4 BOOT_ERROR_NO_TRNG BOOT_VALIDATION_WARN
      else c4)"
  define c6 where "c6 = (if smt_enabled f
      then boot_validation_context_add_error c5 BOOT_ERROR_SMT_ENABLED_NOT_ALLOWED BOOT_VALIDATION_WARN
      else c5)"
  define c7 where "c7 = (if \<not> secure_boot_enabled f
      then boot_validation_context_add_error c6 BOOT_ERROR_SECURE_BOOT_DISABLED BOOT_VALIDATION_WARN
      else c6)"
  have ok0: "ctx_ok 0 c0" and r0: "recorded_errors c0 = []"
    by (simp_all add: c0_def ctx_ok_init recorded_init)
  have "ctx_ok (Suc 0) c1"
    unfolding c1_def by (rule cond_add(1) [OF ok0]) simp
  then have ok1: "ctx_ok 1 c1"
    by (simp add: ctx_ok_def)
  have r1: "recorded_errors c1 = recorded_errors c0 @ (if cpu_count f < 2 then [BOOT_ERROR_TOO_FEW_CORES] else [])"
    unfolding c1_def by (rule cond_add(2) [OF ok0]) simp
  have "ctx_ok (Suc 1) c2"
    unfolding c2_def by (rule cond_add(1) [OF ok1]) simp
  then have ok2: "ctx_ok 2 c2"
    by (simp add: ctx_ok_def)
  have r2: "recorded_errors c2 = recorded_errors c1 @ (if level_count (cache_topology f) = 0 then [BOOT_ERROR_NO_CACHE] else [])"
    unfolding c2_def by (rule cond_add(2) [OF ok1]) simp
  have "ctx_ok (Suc 2) c3"
    unfolding c3_def by (rule cond_add(1) [OF ok2]) simp
  then have ok3: "ctx_ok 3 c3"
    by (simp add: ctx_ok_def)
  have r3: "recorded_errors c3 = recorded_errors c2 @ (if numa_nodes f < 1 then [BOOT_ERROR_NO_NUMA] else [])"
    unfolding c3_def by (rule cond_add(2) [OF ok2]) simp
  have "ctx_ok (Suc 3) c4"
    unfolding c4_def by (rule cond_add(1) [OF ok3]) simp
  then have ok4: "ctx_ok 4 c4"
    by (simp add: ctx_ok_def)
  have r4: "recorded_errors c4 = recorded_errors c3 @ (if \<not> constant_time_supported f then [BOOT_ERROR_NO_CONSTANT_TIME_SUPPORT] else [])"
    unfolding c4_def by (rule cond_add(2) [OF ok3]) simp
  have "ctx_ok (Suc 4) c5"
    unfolding c5_def by (rule cond_add(1) [OF ok4]) simp
  then have ok5: "ctx_ok 5 c5"
    by (simp add: ctx_ok_def)
  have r5: "recorded_errors c5 = recorded_errors c4 @ (if \<not> trng_available f then [BOOT_ERROR_NO_TRNG] else [])"
    unfolding c5_def by (rule cond_add(2) [OF ok4]) simp
  have "ctx_ok (Suc 5) c6"
    unfolding c6_def by (rule cond_add(1) [OF ok5]) simp
  then have ok6: "ctx_ok 6 c6"
    by (simp add: ctx_ok_def)
  have r6: "recorded_errors c6 = recorded_errors c5 @ (if smt_enabled f then [BOOT_ERROR_SMT_ENABLED_NOT_ALLOWED] else [])"
    unfolding c6_def by (rule cond_add(2) [OF ok5]) simp
  have "ctx_ok (Suc 6) c7"
    unfolding c7_def by (rule cond_add(1) [OF ok6]) simp
  then have ok7: "ctx_ok 7 c7"
    by (simp add: ctx_ok_def)
  have r7: "recorded_errors c7 = recorded_errors c6 @ (if \<not> secure_boot_enabled f then [BOOT_ERROR_SECURE_BOOT_DISABLED] else [])"
    unfolding c7_def by (rule cond_add(2) [OF ok6]) simp
  have "ctx_ok (Suc 0) (if True then boot_validation_context_add_error c0
                 BOOT_ERROR_CPU_DETECTION_FAILED BOOT_VALIDATION_HARD_FAIL else c0)"
    by (rule cond_add(1) [OF ok0]) simp
  then have first_ok: "ctx_ok 1 (boot_validation_context_add_error c0
                 BOOT_ERROR_CPU_DETECTION_FAILED BOOT_VALIDATION_HARD_FAIL)"
    by (simp add: ctx_ok_def)
  have "recorded_errors (if True then boot_validation_context_add_error c0
                 BOOT_ERROR_CPU_DETECTION_FAILED BOOT_VALIDATION_HARD_FAIL else c0)
         = recorded_errors c0 @ (if True then [BOOT_ERROR_CPU_DETECTION_FAILED] else [])"
    by (rule cond_add(2) [OF ok0]) simp
  then have first_r: "recorded_errors (boot_validation_context_add_error c0
                 BOOT_ERROR_CPU_DETECTION_FAILED BOOT_VALIDATION_HARD_FAIL)
         = [BOOT_ERROR_CPU_DETECTION_FAILED]"
    using r0 by simp
  have ctx: "validate_ctx (boot_validate f c) =
      (if \<not> probed f
       then boot_validation_context_add_error c0
              BOOT_ERROR_CPU_DETECTION_FAILED BOOT_VALIDATION_HARD_FAIL
       else c7)"
    unfolding boot_validate_def Let_def c7_def c6_def c5_def c4_def c3_def c2_def c1_def c0_def
    by (rule validate_ctx_if)
  have r7': "recorded_errors c7 =
        (if cpu_count f < 2 then [BOOT_ERROR_TOO_FEW_CORES] else [])
        @ (if level_count (cache_topology f) = 0 then [BOOT_ERROR_NO_CACHE] else [])
        @ (if numa_nodes f < 1 then [BOOT_ERROR_NO_NUMA] else [])
        @ (if \<not> constant_time_supported f then [BOOT_ERROR_NO_CONSTANT_TIME_SUPPORT] else [])
        @ (if \<not> trng_available f then [BOOT_ERROR_NO_TRNG] else [])
        @ (if smt_enabled f then [BOOT_ERROR_SMT_ENABLED_NOT_ALLOWED] else [])
        @ (if \<not> secure_boot_enabled f then [BOOT_ERROR_SECURE_BOOT_DISABLED] else [])"
    by (simp only: r7 r6 r5 r4 r3 r2 r1 r0 append_Nil append_assoc)
  show "?L = ?R"
  proof (cases "probed f")
    case True
    then show ?thesis by (simp add: ctx r7')
  next
    case False
    then show ?thesis by (simp add: ctx first_r)
  qed
  show "unat (error_count (validate_ctx (boot_validate f c))) \<le> 7"
  proof (cases "probed f")
    case True
    then show ?thesis using ok7 by (simp add: ctx ctx_ok_def)
  next
    case False
    then show ?thesis using first_ok by (simp add: ctx ctx_ok_def)
  qed
  show "length (errors (validate_ctx (boot_validate f c))) = 32"
  proof (cases "probed f")
    case True
    then show ?thesis using ok7 by (simp add: ctx ctx_ok_def)
  next
    case False
    then show ?thesis using first_ok by (simp add: ctx ctx_ok_def)
  qed
qed

text \<open>The record on each of the three fatal exits.\<close>

lemma probe_facts_fatal:
  assumes "\<not> sealed f"
  shows "\<not> fst (boot_probe_cpu_info p (cpu_info f)) \<Longrightarrow>
           probe_facts (boot_probe p f) =
             f\<lparr>cpu_info := snd (boot_probe_cpu_info p (cpu_info f))\<rparr>"
    and "fst (boot_probe_cpu_info p (cpu_info f)) \<Longrightarrow>
         \<not> fst (boot_probe_cache_topology p (cache_topology f)) \<Longrightarrow>
           probe_facts (boot_probe p f) =
             f\<lparr>cpu_info := snd (boot_probe_cpu_info p (cpu_info f)),
               cache_topology := snd (boot_probe_cache_topology p (cache_topology f))\<rparr>"
    and "fst (boot_probe_cpu_info p (cpu_info f)) \<Longrightarrow>
         fst (boot_probe_cache_topology p (cache_topology f)) \<Longrightarrow>
         boot_probe_cpu_count p = 0 \<Longrightarrow>
           probe_facts (boot_probe p f) =
             f\<lparr>cpu_info := snd (boot_probe_cpu_info p (cpu_info f)),
               cache_topology := snd (boot_probe_cache_topology p (cache_topology f)),
               cpu_count := 0\<rparr>"
  using assms
  by (simp_all add: boot_probe_def probe_facts_def Let_def split_def
        step_cpu_info_def step_cache_topology_def step_cpu_count_def call_defs)

text \<open>Every field of the record after a run that completes.\<close>

lemma probe_facts_identity:
  assumes "probe_ok (boot_probe p f)"
  shows "cpu_info (probe_facts (boot_probe p f)) = snd (boot_probe_cpu_info p (cpu_info f))"
    and "cache_topology (probe_facts (boot_probe p f))
           = snd (boot_probe_cache_topology p (cache_topology f))"
    and "cpu_count (probe_facts (boot_probe p f)) = boot_probe_cpu_count p"
  using assms
  by (simp_all add: boot_probe_def probe_facts_def probe_ok_def Let_def split_def
        split: if_splits)

lemma probe_facts_features:
  assumes "probe_ok (boot_probe p f)"
  shows "constant_time (probe_facts (boot_probe p f)) =
           (if fst (boot_probe_constant_time_support p (constant_time f))
            then snd (boot_probe_constant_time_support p (constant_time f))
            else (snd (boot_probe_constant_time_support p (constant_time f)))
                   \<lparr>ct_valid := False\<rparr>)"
    and "constant_time_supported (probe_facts (boot_probe p f)) =
           (ct_valid (constant_time (probe_facts (boot_probe p f)))
            \<and> aes_ni (constant_time (probe_facts (boot_probe p f)))
            \<and> rdrand (constant_time (probe_facts (boot_probe p f))))"
    and "cache_control (probe_facts (boot_probe p f)) =
           (if fst (boot_probe_cache_control p (cache_control f))
            then snd (boot_probe_cache_control p (cache_control f))
            else (snd (boot_probe_cache_control p (cache_control f)))\<lparr>cc_valid := False\<rparr>)"
    and "cache_partitioning_supported (probe_facts (boot_probe p f)) =
           (cc_valid (cache_control (probe_facts (boot_probe p f)))
            \<and> (cat (cache_control (probe_facts (boot_probe p f)))
                 \<or> cdp (cache_control (probe_facts (boot_probe p f)))))"
    and "memory_protection (probe_facts (boot_probe p f)) =
           (if fst (boot_probe_memory_protection p (memory_protection f))
            then snd (boot_probe_memory_protection p (memory_protection f))
            else (snd (boot_probe_memory_protection p (memory_protection f)))
                   \<lparr>mp_valid := False\<rparr>)"
    and "memory_encryption_supported (probe_facts (boot_probe p f)) =
           (mp_valid (memory_protection (probe_facts (boot_probe p f)))
            \<and> tme (memory_protection (probe_facts (boot_probe p f))))"
    and "side_channel_mitigation (probe_facts (boot_probe p f)) =
           (if fst (boot_probe_side_channel_mitigation p (side_channel_mitigation f))
            then snd (boot_probe_side_channel_mitigation p (side_channel_mitigation f))
            else (snd (boot_probe_side_channel_mitigation p (side_channel_mitigation f)))
                   \<lparr>scm_valid := False\<rparr>)"
    and "side_channel_mitigations_available (probe_facts (boot_probe p f)) =
           (scm_valid (side_channel_mitigation (probe_facts (boot_probe p f)))
            \<and> ibrs (side_channel_mitigation (probe_facts (boot_probe p f)))
            \<and> stibp (side_channel_mitigation (probe_facts (boot_probe p f))))"
  using assms
  by (simp_all add: boot_probe_def probe_facts_def probe_ok_def Let_def split_def
        split: if_splits)

lemma probe_facts_rest:
  assumes "probe_ok (boot_probe p f)"
  shows "trng_available (probe_facts (boot_probe p f)) = boot_probe_trng_available p"
    and "total_memory_mb (probe_facts (boot_probe p f)) = boot_probe_total_memory_mb p"
    and "uefi_boot (probe_facts (boot_probe p f)) = boot_probe_uefi_boot p"
    and "secure_boot_enabled (probe_facts (boot_probe p f)) = boot_probe_secure_boot_enabled p"
  using assms
  by (simp_all add: boot_probe_def probe_facts_def probe_ok_def Let_def split_def
        split: if_splits)

lemma probe_degrades:
  assumes "probe_ok (boot_probe p f)"
  shows "\<not> fst (boot_probe_constant_time_support p (constant_time f)) \<longrightarrow>
           \<not> ct_valid (constant_time (probe_facts (boot_probe p f)))
           \<and> \<not> constant_time_supported (probe_facts (boot_probe p f))"
    and "\<not> fst (boot_probe_cache_control p (cache_control f)) \<longrightarrow>
           \<not> cc_valid (cache_control (probe_facts (boot_probe p f)))
           \<and> \<not> cache_partitioning_supported (probe_facts (boot_probe p f))"
    and "\<not> fst (boot_probe_memory_protection p (memory_protection f)) \<longrightarrow>
           \<not> mp_valid (memory_protection (probe_facts (boot_probe p f)))
           \<and> \<not> memory_encryption_supported (probe_facts (boot_probe p f))"
    and "\<not> fst (boot_probe_side_channel_mitigation p (side_channel_mitigation f)) \<longrightarrow>
           \<not> scm_valid (side_channel_mitigation (probe_facts (boot_probe p f)))
           \<and> \<not> side_channel_mitigations_available (probe_facts (boot_probe p f))"
  by (simp_all add: probe_facts_features [OF assms])

lemma apply_op_sealed_validated:
  "(sealed f \<longrightarrow> validated f) \<Longrightarrow> sealed (apply_op a f) \<longrightarrow> validated (apply_op a f)"
proof (cases a)
  case Op_init
  then show ?thesis by (simp add: boot_init_def)
next
  case (Op_probe p)
  assume "sealed f \<longrightarrow> validated f"
  with Op_probe show ?thesis by (simp add: probe_sealed_same probe_validated_same)
next
  case (Op_validate c)
  assume "sealed f \<longrightarrow> validated f"
  with Op_validate show ?thesis by (simp add: validate_facts_eq)
next
  case Op_seal
  assume "sealed f \<longrightarrow> validated f"
  with Op_seal show ?thesis by (simp add: boot_seal_def)
qed

lemma run_ops_sealed_validated:
  "(sealed f \<longrightarrow> validated f) \<Longrightarrow> sealed (run_ops ops f) \<longrightarrow> validated (run_ops ops f)"
proof (induction ops arbitrary: f)
  case Nil
  then show ?case by simp
next
  case (Cons a ops)
  have "sealed (apply_op a f) \<longrightarrow> validated (apply_op a f)"
    by (rule apply_op_sealed_validated [OF Cons.prems])
  then show ?case
    using Cons.IH [of "apply_op a f"] by simp
qed

lemma htt_leaf4_x86:
  "x86_boot_probe_smt_enabled htt_leaf4_machine"
  "x86_boot_probe_threads_per_core htt_leaf4_machine = 1"
  by (simp_all add: x86_boot_probe_smt_enabled_def x86_boot_probe_threads_per_core_def
        htt_leaf4_machine_def Let_def)

lemma boot_init_const: "boot_init a = boot_init b"
  by (simp add: boot_init_def)

lemma boot_init_fields:
  "cpu_info (boot_init a) = zero_cpu_info"
  "cache_topology (boot_init a) = zero_cache_topology"
  "constant_time (boot_init a) = zero_constant_time"
  "cache_control (boot_init a) = zero_cache_control"
  "memory_protection (boot_init a) = zero_memory_protection"
  "side_channel_mitigation (boot_init a) = zero_side_channel_mitigation"
  by (simp_all add: boot_init_def zero_boot_facts_def)

lemma boot_probe_cong:
  assumes "boot_probe_cpu_info p (cpu_info f) = boot_probe_cpu_info q (cpu_info f)"
    and "boot_probe_cache_topology p (cache_topology f)
           = boot_probe_cache_topology q (cache_topology f)"
    and "boot_probe_cpu_count p = boot_probe_cpu_count q"
    and "boot_probe_numa_node_count p = boot_probe_numa_node_count q"
    and "boot_probe_smt_enabled p = boot_probe_smt_enabled q"
    and "boot_probe_smt_enabled p \<longrightarrow>
           boot_probe_threads_per_core p = boot_probe_threads_per_core q"
    and "boot_probe_constant_time_support p (constant_time f)
           = boot_probe_constant_time_support q (constant_time f)"
    and "boot_probe_cache_control p (cache_control f)
           = boot_probe_cache_control q (cache_control f)"
    and "boot_probe_memory_protection p (memory_protection f)
           = boot_probe_memory_protection q (memory_protection f)"
    and "boot_probe_side_channel_mitigation p (side_channel_mitigation f)
           = boot_probe_side_channel_mitigation q (side_channel_mitigation f)"
    and "boot_probe_trng_available p = boot_probe_trng_available q"
    and "boot_probe_total_memory_mb p = boot_probe_total_memory_mb q"
    and "boot_probe_uefi_boot p = boot_probe_uefi_boot q"
    and "boot_probe_secure_boot_enabled p = boot_probe_secure_boot_enabled q"
  shows "boot_probe p f = boot_probe q f"
proof -
  define g1 where "g1 = snd (step_cpu_info q (f, []))"
  define g2 where "g2 = snd (step_cache_topology q g1)"
  define g3 where "g3 = step_cpu_count q g2"
  define g4 where "g4 = step_numa q g3"
  define g5 where "g5 = step_smt q g4"
  define g6 where "g6 = step_constant_time q g5"
  define g7 where "g7 = step_cache_control q g6"
  define g8 where "g8 = step_memory_protection q g7"
  define g9 where "g9 = step_side_channel q g8"
  define g10 where "g10 = step_trng q g9"
  define g11 where "g11 = step_total_memory q g10"
  have s1: "step_cpu_info p (f, []) = step_cpu_info q (f, [])"
    using assms(1) by (simp add: step_cpu_info_def call_defs)
  have "cache_topology (fst g1) = cache_topology f"
    by (simp add: g1_def)
  then have s2: "step_cache_topology p g1 = step_cache_topology q g1"
    using assms(2) by (simp add: step_cache_topology_def call_defs split_def)
  have s3: "step_cpu_count p g2 = step_cpu_count q g2"
    using assms(3) by (simp add: step_cpu_count_def call_defs)
  have s4: "step_numa p g3 = step_numa q g3"
    using assms(4) by (simp add: step_numa_def call_defs)
  have s5: "step_smt p g4 = step_smt q g4"
    using assms(5,6) by (simp add: step_smt_def call_defs Let_def split_def)
  have "constant_time (fst g5) = constant_time f"
    by (simp add: g5_def g4_def g3_def g2_def g1_def)
  then have s6: "step_constant_time p g5 = step_constant_time q g5"
    using assms(7) by (simp add: step_constant_time_def call_defs split_def)
  have "cache_control (fst g6) = cache_control f"
    by (simp add: g6_def g5_def g4_def g3_def g2_def g1_def)
  then have s7: "step_cache_control p g6 = step_cache_control q g6"
    using assms(8) by (simp add: step_cache_control_def call_defs split_def)
  have "memory_protection (fst g7) = memory_protection f"
    by (simp add: g7_def g6_def g5_def g4_def g3_def g2_def g1_def)
  then have s8: "step_memory_protection p g7 = step_memory_protection q g7"
    using assms(9) by (simp add: step_memory_protection_def call_defs split_def)
  have "side_channel_mitigation (fst g8) = side_channel_mitigation f"
    by (simp add: g8_def g7_def g6_def g5_def g4_def g3_def g2_def g1_def)
  then have s9: "step_side_channel p g8 = step_side_channel q g8"
    using assms(10) by (simp add: step_side_channel_def call_defs split_def)
  have s10: "step_trng p g9 = step_trng q g9"
    using assms(11) by (simp add: step_trng_def call_defs)
  have s11: "step_total_memory p g10 = step_total_memory q g10"
    using assms(12) by (simp add: step_total_memory_def call_defs)
  have s12: "step_boot_mode p g11 = step_boot_mode q g11"
    using assms(13,14) by (simp add: step_boot_mode_def call_defs)
  show ?thesis
    unfolding boot_probe_def Let_def split_def
    using s1 s2 s3 s4 s5 s6 s7 s8 s9 s10 s11 s12
    unfolding g1_def g2_def g3_def g4_def g5_def g6_def g7_def g8_def g9_def g10_def g11_def
    by simp
qed

lemma write_symmetric_apply:
  "write_symmetric m i j v a b = (if (a = i \<and> b = j) \<or> (a = j \<and> b = i) then v else m a b)"
  by (auto simp: write_symmetric_def Let_def)

lemma fold_write_row:
  assumes F: "\<And>j m a b. F j m a b =
                (if (a = i \<and> b = j) \<or> (a = j \<and> b = i) then e j else m a b)"
  shows "fold F js m a b =
     (if a = i \<and> b \<in> set js then e b
      else if b = i \<and> a \<in> set js then e a
      else m a b)"
proof (induction js arbitrary: m)
  case Nil
  then show ?case by simp
next
  case (Cons j js)
  have "fold F (j # js) m a b = fold F js (F j m) a b"
    by simp
  also have "\<dots> = (if a = i \<and> b \<in> set js then e b
      else if b = i \<and> a \<in> set js then e a
      else F j m a b)"
    by (rule Cons.IH)
  also have "\<dots> = (if a = i \<and> b \<in> set (j # js) then e b
      else if b = i \<and> a \<in> set (j # js) then e a
      else m a b)"
    by (auto simp: F)
  finally show ?case .
qed

lemma build_row_apply:
  "build_row cs n i m a b =
     (if a = i \<and> i \<le> b \<and> b < n then matrix_entry cs i b
      else if b = i \<and> i \<le> a \<and> a < n then matrix_entry cs i a
      else m a b)"
proof -
  have "build_row cs n i m a b =
     (if a = i \<and> b \<in> set [i..<n] then matrix_entry cs i b
      else if b = i \<and> a \<in> set [i..<n] then matrix_entry cs i a
      else m a b)"
    unfolding build_row_def
    by (rule fold_write_row) (rule write_symmetric_apply)
  then show ?thesis by simp
qed

lemma fold_build_rows:
  assumes G: "\<And>i m. G i m a b = (if T i then v else m a b)"
  shows "fold G is m a b = (if \<exists>i \<in> set is. T i then v else m a b)"
proof (induction "is" arbitrary: m)
  case Nil
  then show ?case by simp
next
  case (Cons i "is")
  have "fold G (i # is) m a b = fold G is (G i m) a b"
    by simp
  also have "\<dots> = (if \<exists>i \<in> set is. T i then v else G i m a b)"
    by (rule Cons.IH)
  also have "\<dots> = (if \<exists>k \<in> set (i # is). T k then v else m a b)"
    by (simp add: G)
  finally show ?case .
qed

lemma build_row_entry:
  "build_row cs n i m a b =
     (if (a = i \<and> i \<le> b \<and> b < n) \<or> (b = i \<and> i \<le> a \<and> a < n)
      then matrix_entry cs (min a b) (max a b)
      else m a b)"
proof (cases "a = i \<and> i \<le> b \<and> b < n")
  case True
  then show ?thesis by (simp add: build_row_apply min_def max_def)
next
  case False
  then show ?thesis by (auto simp: build_row_apply min_def max_def)
qed

lemma build_rows_apply:
  assumes "a < n" and "b < n"
  shows "build_rows cs n m a b = matrix_entry cs (min a b) (max a b)"
proof -
  have ex: "\<exists>i \<in> set [0..<n]. (a = i \<and> i \<le> b \<and> b < n) \<or> (b = i \<and> i \<le> a \<and> a < n)"
  proof (cases "a \<le> b")
    case True
    with assms show ?thesis by (intro bexI [of _ a]) simp_all
  next
    case False
    with assms show ?thesis by (intro bexI [of _ b]) simp_all
  qed
  have "build_rows cs n m a b =
     (if \<exists>i \<in> set [0..<n]. (a = i \<and> i \<le> b \<and> b < n) \<or> (b = i \<and> i \<le> a \<and> a < n)
      then matrix_entry cs (min a b) (max a b)
      else m a b)"
    unfolding build_rows_def
    by (rule fold_build_rows) (rule build_row_entry)
  with ex show ?thesis
    by (simp only: if_True)
qed

lemma build_rows_symmetric:
  assumes "a < n" and "b < n"
  shows "build_rows cs n m a b = build_rows cs n m b a"
  by (simp add: build_rows_apply assms min.commute max.commute)

lemma build_rows_diagonal:
  assumes "a < n"
  shows "build_rows cs n m a a = CACHE_ISOLATED_FULL"
  by (simp add: build_rows_apply assms matrix_entry_def)

lemma matrix_ok_init: "topology_init boot = Some t \<Longrightarrow> matrix_ok t"
  by (auto simp: topology_init_def matrix_ok_def split: if_splits)

lemma matrix_ok_build: "matrix_ok t \<Longrightarrow> matrix_ok (snd (topology_build_cache_isolation_matrix t))"
  by (auto simp: topology_build_cache_isolation_matrix_def matrix_ok_def
        build_rows_symmetric build_rows_diagonal)

lemma matrix_ok_op: "matrix_ok t \<Longrightarrow> matrix_ok (apply_topology_op a t)"
proof (cases a)
  case (Top_probe_core i g)
  assume "matrix_ok t"
  with Top_probe_core show ?thesis
    by (simp add: topology_probe_core_def matrix_ok_def)
next
  case Top_build
  assume "matrix_ok t"
  with Top_build show ?thesis
    by (simp add: matrix_ok_build)
next
  case (Top_validate h)
  assume "matrix_ok t"
  with Top_validate show ?thesis
    by (simp add: topology_validate_def matrix_ok_def)
next
  case Top_seal
  assume "matrix_ok t"
  with Top_seal show ?thesis
    by (simp add: topology_seal_def matrix_ok_def)
qed

lemma matrix_ok_run: "matrix_ok t \<Longrightarrow> matrix_ok (run_topology_ops ops t)"
  by (induction ops arbitrary: t) (simp_all add: matrix_ok_op)

lemmas topology_eval_defs = scenario_topology_def scenario_topology_ops_def
  scenario_topology0_def topology_probe_core_def topology_build_cache_isolation_matrix_def
  topology_validate_def topology_seal_def

text \<open>The first scenario expects \<open>cache_isolation(0, 1) = L2\<close>; the model agrees.\<close>

lemma scenario_isolation_0_1:
  "topology_get_cache_isolation scenario_topology 0 1 = CACHE_ISOLATED_L2"
  by (simp add: topology_eval_defs topology_get_cache_isolation_def build_rows_apply
        matrix_entry_def pair_isolation_def scenario_core_def)

section \<open>Properties\<close>

subsection \<open>Sealing\<close>

text \<open>
  C4: \<^verbatim>\<open>boot_seal\<close> returns true exactly when the record is validated and not yet sealed.
  When it succeeds the only change to the record is that \<^verbatim>\<open>sealed\<close> becomes true; when it
  fails the record is unchanged; a second call on the resulting record always fails.
\<close>

theorem boot_seal_succeeds_iff:
  "(fst (boot_seal f) \<longleftrightarrow> validated f \<and> \<not> sealed f)
   \<and> (fst (boot_seal f) \<longrightarrow> snd (boot_seal f) = f\<lparr>sealed := True\<rparr>)
   \<and> (\<not> fst (boot_seal f) \<longrightarrow> snd (boot_seal f) = f)
   \<and> \<not> fst (boot_seal (snd (boot_seal f)))"
  by (simp add: boot_seal_def)

theorem boot_seal_succeeds_iff_witness:
  "validated validated_facts \<and> \<not> sealed validated_facts
   \<and> fst (boot_seal validated_facts)
   \<and> snd (boot_seal validated_facts) = validated_facts\<lparr>sealed := True\<rparr>
   \<and> \<not> fst (boot_seal (snd (boot_seal validated_facts)))"
  using boot_seal_succeeds_iff [of validated_facts] by (simp add: eval_defs)

subsection \<open>The result of validation\<close>

text \<open>
  C2: \<^verbatim>\<open>boot_validate\<close> returns HardFail exactly when the record is not probed, has fewer
  than two CPUs, has no cache level, or has no NUMA node; Warn exactly when none of these
  holds and constant-time support or the TRNG is missing, SMT is on, or secure boot is off;
  Accept exactly when nothing triggers. The returned value is the worst severity kept in
  the context, and the call writes \<^verbatim>\<open>validated = true\<close> exactly when no hard-fail condition
  holds, leaving the record untouched otherwise.
\<close>

theorem boot_validate_severity:
  "(validate_result (boot_validate f c) = BOOT_VALIDATION_HARD_FAIL \<longleftrightarrow>
      \<not> probed f \<or> cpu_count f < 2 \<or> level_count (cache_topology f) = 0 \<or> numa_nodes f < 1)
   \<and> (validate_result (boot_validate f c) = BOOT_VALIDATION_WARN \<longleftrightarrow>
      \<not> (\<not> probed f \<or> cpu_count f < 2 \<or> level_count (cache_topology f) = 0 \<or> numa_nodes f < 1)
      \<and> (\<not> constant_time_supported f \<or> \<not> trng_available f \<or> smt_enabled f
           \<or> \<not> secure_boot_enabled f))
   \<and> (validate_result (boot_validate f c) = BOOT_VALIDATION_ACCEPT \<longleftrightarrow>
      \<not> (\<not> probed f \<or> cpu_count f < 2 \<or> level_count (cache_topology f) = 0 \<or> numa_nodes f < 1)
      \<and> \<not> (\<not> constant_time_supported f \<or> \<not> trng_available f \<or> smt_enabled f
           \<or> \<not> secure_boot_enabled f))
   \<and> validate_result (boot_validate f c) = worst_result (validate_ctx (boot_validate f c))
   \<and> validate_facts (boot_validate f c) =
       (if \<not> probed f \<or> cpu_count f < 2 \<or> level_count (cache_topology f) = 0 \<or> numa_nodes f < 1
        then f else f\<lparr>validated := True\<rparr>)"
proof -
  let ?hard = "\<not> probed f \<or> cpu_count f < 2 \<or> level_count (cache_topology f) = 0 \<or> numa_nodes f < 1"
  let ?warn = "\<not> constant_time_supported f \<or> \<not> trng_available f \<or> smt_enabled f
           \<or> \<not> secure_boot_enabled f"
  have h: "validate_result (boot_validate f c) = BOOT_VALIDATION_HARD_FAIL \<longleftrightarrow> ?hard"
    by (auto simp: validate_result_eq)
  have w: "validate_result (boot_validate f c) = BOOT_VALIDATION_WARN \<longleftrightarrow> \<not> ?hard \<and> ?warn"
    by (auto simp: validate_result_eq)
  have a: "validate_result (boot_validate f c) = BOOT_VALIDATION_ACCEPT \<longleftrightarrow> \<not> ?hard \<and> \<not> ?warn"
    by (auto simp: validate_result_eq)
  have r: "validate_result (boot_validate f c) = worst_result (validate_ctx (boot_validate f c))"
    by (rule validate_result_worst)
  have v: "validate_facts (boot_validate f c) = (if ?hard then f else f\<lparr>validated := True\<rparr>)"
    by (simp add: validate_facts_eq validate_result_eq)
  show ?thesis
    by (rule conjI [OF h conjI [OF w conjI [OF a conjI [OF r v]]]])
qed

text \<open>
  On the re-probed single-core record the call returns HardFail and leaves the record as
  it was; on the zeroed record after probing the first scenario's machine it returns
  Accept and raises the validated flag.
\<close>

theorem boot_validate_severity_witness:
  "cpu_count reprobed_facts < 2
   \<and> validate_result (boot_validate reprobed_facts fresh_ctx) = BOOT_VALIDATION_HARD_FAIL
   \<and> validate_facts (boot_validate reprobed_facts fresh_ctx) = reprobed_facts
   \<and> worst_result (validate_ctx (boot_validate reprobed_facts fresh_ctx))
       = BOOT_VALIDATION_HARD_FAIL"
  using boot_validate_severity [of reprobed_facts fresh_ctx]
  by (simp add: eval_defs)

subsection \<open>The validated flag is only ever raised\<close>

text \<open>
  C10: a record that is validated on entry to \<^verbatim>\<open>boot_validate\<close> is still validated
  afterwards, whatever the call returns; \<^verbatim>\<open>boot_probe\<close> and \<^verbatim>\<open>boot_seal\<close> leave the flag as
  it is; only \<^verbatim>\<open>boot_init\<close> clears it.
\<close>

theorem validated_never_cleared:
  "(validated f \<longrightarrow> validated (validate_facts (boot_validate f c)))
   \<and> validated (probe_facts (boot_probe p f)) = validated f
   \<and> validated (snd (boot_seal f)) = validated f
   \<and> \<not> validated (boot_init f)"
  by (simp add: validate_facts_eq probe_validated_same boot_seal_def boot_init_def)

text \<open>
  A validated record that is probed again on a machine now reporting one core fails
  validation with HardFail and keeps its validated flag.
\<close>

theorem validated_never_cleared_witness:
  "validated reprobed_facts
   \<and> validate_result (boot_validate reprobed_facts fresh_ctx) = BOOT_VALIDATION_HARD_FAIL
   \<and> validated (validate_facts (boot_validate reprobed_facts fresh_ctx))"
  using validated_never_cleared [of reprobed_facts fresh_ctx minimal_pass_provider]
  by (simp add: eval_defs)

subsection \<open>The probe sequence\<close>

text \<open>
  C3 (as amended): on a record that is not sealed, \<^verbatim>\<open>boot_probe\<close> runs its twelve steps in
  the fixed order CPU identity, cache topology, CPU count, NUMA count, SMT (the thread
  count is asked for only when SMT is reported on), constant-time features, cache-control
  features, memory-protection features, side-channel mitigations, TRNG, total memory,
  boot mode, and each step stores the provider's answer in the record. Exactly three step
  failures are fatal: a failing CPU identity probe, a failing cache topology probe, and a
  CPU count of 0. The run then stops at that step and returns false, the record holds
  what the steps so far have written, and \<^verbatim>\<open>probed\<close> is left false if it was false on entry,
  as it is after \<^verbatim>\<open>boot_init\<close>. Every other failure degrades: a NUMA count of 0 is recorded
  as 1, and a failing feature probe (steps 6 to 9) leaves the group's valid flag and its
  aggregate flag false; the sequence continues, and on completion \<^verbatim>\<open>probed\<close> is set and
  \<^verbatim>\<open>boot_probe\<close> returns true.
\<close>

theorem boot_probe_twelve_steps:
  assumes "\<not> sealed f"
  shows
    "(probe_ok (boot_probe p f) \<longleftrightarrow>
        fst (boot_probe_cpu_info p (cpu_info f))
        \<and> fst (boot_probe_cache_topology p (cache_topology f))
        \<and> boot_probe_cpu_count p \<noteq> 0)
     \<and> probe_calls (boot_probe p f) =
        (if \<not> fst (boot_probe_cpu_info p (cpu_info f)) then [Call_cpu_info]
         else if \<not> fst (boot_probe_cache_topology p (cache_topology f))
           then [Call_cpu_info, Call_cache_topology]
         else if boot_probe_cpu_count p = 0
           then [Call_cpu_info, Call_cache_topology, Call_cpu_count]
         else [Call_cpu_info, Call_cache_topology, Call_cpu_count, Call_numa_node_count,
               Call_smt_enabled]
              @ (if boot_probe_smt_enabled p then [Call_threads_per_core] else [])
              @ [Call_constant_time_support, Call_cache_control, Call_memory_protection,
                 Call_side_channel_mitigation, Call_trng_available, Call_total_memory_mb,
                 Call_uefi_boot, Call_secure_boot_enabled])
     \<and> (\<not> fst (boot_probe_cpu_info p (cpu_info f)) \<longrightarrow>
          probe_facts (boot_probe p f) =
            f\<lparr>cpu_info := snd (boot_probe_cpu_info p (cpu_info f))\<rparr>)
     \<and> (fst (boot_probe_cpu_info p (cpu_info f))
          \<and> \<not> fst (boot_probe_cache_topology p (cache_topology f)) \<longrightarrow>
          probe_facts (boot_probe p f) =
            f\<lparr>cpu_info := snd (boot_probe_cpu_info p (cpu_info f)),
              cache_topology := snd (boot_probe_cache_topology p (cache_topology f))\<rparr>)
     \<and> (fst (boot_probe_cpu_info p (cpu_info f))
          \<and> fst (boot_probe_cache_topology p (cache_topology f))
          \<and> boot_probe_cpu_count p = 0 \<longrightarrow>
          probe_facts (boot_probe p f) =
            f\<lparr>cpu_info := snd (boot_probe_cpu_info p (cpu_info f)),
              cache_topology := snd (boot_probe_cache_topology p (cache_topology f)),
              cpu_count := 0\<rparr>)
     \<and> (\<not> probe_ok (boot_probe p f) \<and> \<not> probed f \<longrightarrow>
          \<not> probed (probe_facts (boot_probe p f)))
     \<and> (probe_ok (boot_probe p f) \<longrightarrow>
          cpu_info (probe_facts (boot_probe p f)) = snd (boot_probe_cpu_info p (cpu_info f))
          \<and> cache_topology (probe_facts (boot_probe p f))
              = snd (boot_probe_cache_topology p (cache_topology f))
          \<and> cpu_count (probe_facts (boot_probe p f)) = boot_probe_cpu_count p
          \<and> numa_nodes (probe_facts (boot_probe p f)) =
              (if boot_probe_numa_node_count p = 0 then 1 else boot_probe_numa_node_count p)
          \<and> smt_enabled (probe_facts (boot_probe p f)) = boot_probe_smt_enabled p
          \<and> threads_per_core (probe_facts (boot_probe p f)) =
              (if boot_probe_smt_enabled p then boot_probe_threads_per_core p else 1)
          \<and> constant_time (probe_facts (boot_probe p f)) =
              (if fst (boot_probe_constant_time_support p (constant_time f))
               then snd (boot_probe_constant_time_support p (constant_time f))
               else (snd (boot_probe_constant_time_support p (constant_time f)))
                      \<lparr>ct_valid := False\<rparr>)
          \<and> constant_time_supported (probe_facts (boot_probe p f)) =
              (ct_valid (constant_time (probe_facts (boot_probe p f)))
               \<and> aes_ni (constant_time (probe_facts (boot_probe p f)))
               \<and> rdrand (constant_time (probe_facts (boot_probe p f))))
          \<and> cache_control (probe_facts (boot_probe p f)) =
              (if fst (boot_probe_cache_control p (cache_control f))
               then snd (boot_probe_cache_control p (cache_control f))
               else (snd (boot_probe_cache_control p (cache_control f)))
                      \<lparr>cc_valid := False\<rparr>)
          \<and> cache_partitioning_supported (probe_facts (boot_probe p f)) =
              (cc_valid (cache_control (probe_facts (boot_probe p f)))
               \<and> (cat (cache_control (probe_facts (boot_probe p f)))
                    \<or> cdp (cache_control (probe_facts (boot_probe p f)))))
          \<and> memory_protection (probe_facts (boot_probe p f)) =
              (if fst (boot_probe_memory_protection p (memory_protection f))
               then snd (boot_probe_memory_protection p (memory_protection f))
               else (snd (boot_probe_memory_protection p (memory_protection f)))
                      \<lparr>mp_valid := False\<rparr>)
          \<and> memory_encryption_supported (probe_facts (boot_probe p f)) =
              (mp_valid (memory_protection (probe_facts (boot_probe p f)))
               \<and> tme (memory_protection (probe_facts (boot_probe p f))))
          \<and> side_channel_mitigation (probe_facts (boot_probe p f)) =
              (if fst (boot_probe_side_channel_mitigation p (side_channel_mitigation f))
               then snd (boot_probe_side_channel_mitigation p (side_channel_mitigation f))
               else (snd (boot_probe_side_channel_mitigation p (side_channel_mitigation f)))
                      \<lparr>scm_valid := False\<rparr>)
          \<and> side_channel_mitigations_available (probe_facts (boot_probe p f)) =
              (scm_valid (side_channel_mitigation (probe_facts (boot_probe p f)))
               \<and> ibrs (side_channel_mitigation (probe_facts (boot_probe p f)))
               \<and> stibp (side_channel_mitigation (probe_facts (boot_probe p f))))
          \<and> trng_available (probe_facts (boot_probe p f)) = boot_probe_trng_available p
          \<and> total_memory_mb (probe_facts (boot_probe p f)) = boot_probe_total_memory_mb p
          \<and> uefi_boot (probe_facts (boot_probe p f)) = boot_probe_uefi_boot p
          \<and> secure_boot_enabled (probe_facts (boot_probe p f))
              = boot_probe_secure_boot_enabled p
          \<and> probed (probe_facts (boot_probe p f))
          \<and> validated (probe_facts (boot_probe p f)) = validated f
          \<and> sealed (probe_facts (boot_probe p f)) = sealed f
          \<and> (\<not> fst (boot_probe_constant_time_support p (constant_time f)) \<longrightarrow>
                \<not> ct_valid (constant_time (probe_facts (boot_probe p f)))
                \<and> \<not> constant_time_supported (probe_facts (boot_probe p f)))
          \<and> (\<not> fst (boot_probe_cache_control p (cache_control f)) \<longrightarrow>
                \<not> cc_valid (cache_control (probe_facts (boot_probe p f)))
                \<and> \<not> cache_partitioning_supported (probe_facts (boot_probe p f)))
          \<and> (\<not> fst (boot_probe_memory_protection p (memory_protection f)) \<longrightarrow>
                \<not> mp_valid (memory_protection (probe_facts (boot_probe p f)))
                \<and> \<not> memory_encryption_supported (probe_facts (boot_probe p f)))
          \<and> (\<not> fst (boot_probe_side_channel_mitigation p (side_channel_mitigation f)) \<longrightarrow>
                \<not> scm_valid (side_channel_mitigation (probe_facts (boot_probe p f)))
                \<and> \<not> side_channel_mitigations_available (probe_facts (boot_probe p f))))"
proof -
  have ok: "probe_ok (boot_probe p f) \<longleftrightarrow>
        fst (boot_probe_cpu_info p (cpu_info f))
        \<and> fst (boot_probe_cache_topology p (cache_topology f))
        \<and> boot_probe_cpu_count p \<noteq> 0"
    using assms by (simp add: probe_ok_iff)
  note calls = probe_calls_eq [OF assms, of p]
  have f1: "\<not> fst (boot_probe_cpu_info p (cpu_info f)) \<longrightarrow>
          probe_facts (boot_probe p f) =
            f\<lparr>cpu_info := snd (boot_probe_cpu_info p (cpu_info f))\<rparr>"
    using probe_facts_fatal(1) [OF assms, of p] by blast
  have f2: "fst (boot_probe_cpu_info p (cpu_info f))
          \<and> \<not> fst (boot_probe_cache_topology p (cache_topology f)) \<longrightarrow>
          probe_facts (boot_probe p f) =
            f\<lparr>cpu_info := snd (boot_probe_cpu_info p (cpu_info f)),
              cache_topology := snd (boot_probe_cache_topology p (cache_topology f))\<rparr>"
    using probe_facts_fatal(2) [OF assms, of p] by blast
  have f3: "fst (boot_probe_cpu_info p (cpu_info f))
          \<and> fst (boot_probe_cache_topology p (cache_topology f))
          \<and> boot_probe_cpu_count p = 0 \<longrightarrow>
          probe_facts (boot_probe p f) =
            f\<lparr>cpu_info := snd (boot_probe_cpu_info p (cpu_info f)),
              cache_topology := snd (boot_probe_cache_topology p (cache_topology f)),
              cpu_count := 0\<rparr>"
    using probe_facts_fatal(3) [OF assms, of p] by blast
  have fresh: "\<not> probe_ok (boot_probe p f) \<and> \<not> probed f \<longrightarrow>
          \<not> probed (probe_facts (boot_probe p f))"
    by (simp add: probe_probed)
  have succ: "probe_ok (boot_probe p f) \<longrightarrow>
          cpu_info (probe_facts (boot_probe p f)) = snd (boot_probe_cpu_info p (cpu_info f))
          \<and> cache_topology (probe_facts (boot_probe p f))
              = snd (boot_probe_cache_topology p (cache_topology f))
          \<and> cpu_count (probe_facts (boot_probe p f)) = boot_probe_cpu_count p
          \<and> numa_nodes (probe_facts (boot_probe p f)) =
              (if boot_probe_numa_node_count p = 0 then 1 else boot_probe_numa_node_count p)
          \<and> smt_enabled (probe_facts (boot_probe p f)) = boot_probe_smt_enabled p
          \<and> threads_per_core (probe_facts (boot_probe p f)) =
              (if boot_probe_smt_enabled p then boot_probe_threads_per_core p else 1)
          \<and> constant_time (probe_facts (boot_probe p f)) =
              (if fst (boot_probe_constant_time_support p (constant_time f))
               then snd (boot_probe_constant_time_support p (constant_time f))
               else (snd (boot_probe_constant_time_support p (constant_time f)))
                      \<lparr>ct_valid := False\<rparr>)
          \<and> constant_time_supported (probe_facts (boot_probe p f)) =
              (ct_valid (constant_time (probe_facts (boot_probe p f)))
               \<and> aes_ni (constant_time (probe_facts (boot_probe p f)))
               \<and> rdrand (constant_time (probe_facts (boot_probe p f))))
          \<and> cache_control (probe_facts (boot_probe p f)) =
              (if fst (boot_probe_cache_control p (cache_control f))
               then snd (boot_probe_cache_control p (cache_control f))
               else (snd (boot_probe_cache_control p (cache_control f)))
                      \<lparr>cc_valid := False\<rparr>)
          \<and> cache_partitioning_supported (probe_facts (boot_probe p f)) =
              (cc_valid (cache_control (probe_facts (boot_probe p f)))
               \<and> (cat (cache_control (probe_facts (boot_probe p f)))
                    \<or> cdp (cache_control (probe_facts (boot_probe p f)))))
          \<and> memory_protection (probe_facts (boot_probe p f)) =
              (if fst (boot_probe_memory_protection p (memory_protection f))
               then snd (boot_probe_memory_protection p (memory_protection f))
               else (snd (boot_probe_memory_protection p (memory_protection f)))
                      \<lparr>mp_valid := False\<rparr>)
          \<and> memory_encryption_supported (probe_facts (boot_probe p f)) =
              (mp_valid (memory_protection (probe_facts (boot_probe p f)))
               \<and> tme (memory_protection (probe_facts (boot_probe p f))))
          \<and> side_channel_mitigation (probe_facts (boot_probe p f)) =
              (if fst (boot_probe_side_channel_mitigation p (side_channel_mitigation f))
               then snd (boot_probe_side_channel_mitigation p (side_channel_mitigation f))
               else (snd (boot_probe_side_channel_mitigation p (side_channel_mitigation f)))
                      \<lparr>scm_valid := False\<rparr>)
          \<and> side_channel_mitigations_available (probe_facts (boot_probe p f)) =
              (scm_valid (side_channel_mitigation (probe_facts (boot_probe p f)))
               \<and> ibrs (side_channel_mitigation (probe_facts (boot_probe p f)))
               \<and> stibp (side_channel_mitigation (probe_facts (boot_probe p f))))
          \<and> trng_available (probe_facts (boot_probe p f)) = boot_probe_trng_available p
          \<and> total_memory_mb (probe_facts (boot_probe p f)) = boot_probe_total_memory_mb p
          \<and> uefi_boot (probe_facts (boot_probe p f)) = boot_probe_uefi_boot p
          \<and> secure_boot_enabled (probe_facts (boot_probe p f))
              = boot_probe_secure_boot_enabled p
          \<and> probed (probe_facts (boot_probe p f))
          \<and> validated (probe_facts (boot_probe p f)) = validated f
          \<and> sealed (probe_facts (boot_probe p f)) = sealed f
          \<and> (\<not> fst (boot_probe_constant_time_support p (constant_time f)) \<longrightarrow>
                \<not> ct_valid (constant_time (probe_facts (boot_probe p f)))
                \<and> \<not> constant_time_supported (probe_facts (boot_probe p f)))
          \<and> (\<not> fst (boot_probe_cache_control p (cache_control f)) \<longrightarrow>
                \<not> cc_valid (cache_control (probe_facts (boot_probe p f)))
                \<and> \<not> cache_partitioning_supported (probe_facts (boot_probe p f)))
          \<and> (\<not> fst (boot_probe_memory_protection p (memory_protection f)) \<longrightarrow>
                \<not> mp_valid (memory_protection (probe_facts (boot_probe p f)))
                \<and> \<not> memory_encryption_supported (probe_facts (boot_probe p f)))
          \<and> (\<not> fst (boot_probe_side_channel_mitigation p (side_channel_mitigation f)) \<longrightarrow>
                \<not> scm_valid (side_channel_mitigation (probe_facts (boot_probe p f)))
                \<and> \<not> side_channel_mitigations_available (probe_facts (boot_probe p f)))"
  proof
    assume a: "probe_ok (boot_probe p f)"
    note id = probe_facts_identity [OF a]
    note ft = probe_facts_features [OF a]
    note rs = probe_facts_rest [OF a]
    note dg = probe_degrades [OF a]
    have smt: "smt_enabled (probe_facts (boot_probe p f)) = boot_probe_smt_enabled p"
      and tpc: "threads_per_core (probe_facts (boot_probe p f)) =
              (if boot_probe_smt_enabled p then boot_probe_threads_per_core p else 1)"
      using probe_smt [OF a] by simp_all
    have pr: "probed (probe_facts (boot_probe p f))"
      using a by (simp add: probe_probed)
    show "cpu_info (probe_facts (boot_probe p f)) = snd (boot_probe_cpu_info p (cpu_info f))
          \<and> cache_topology (probe_facts (boot_probe p f))
              = snd (boot_probe_cache_topology p (cache_topology f))
          \<and> cpu_count (probe_facts (boot_probe p f)) = boot_probe_cpu_count p
          \<and> numa_nodes (probe_facts (boot_probe p f)) =
              (if boot_probe_numa_node_count p = 0 then 1 else boot_probe_numa_node_count p)
          \<and> smt_enabled (probe_facts (boot_probe p f)) = boot_probe_smt_enabled p
          \<and> threads_per_core (probe_facts (boot_probe p f)) =
              (if boot_probe_smt_enabled p then boot_probe_threads_per_core p else 1)
          \<and> constant_time (probe_facts (boot_probe p f)) =
              (if fst (boot_probe_constant_time_support p (constant_time f))
               then snd (boot_probe_constant_time_support p (constant_time f))
               else (snd (boot_probe_constant_time_support p (constant_time f)))
                      \<lparr>ct_valid := False\<rparr>)
          \<and> constant_time_supported (probe_facts (boot_probe p f)) =
              (ct_valid (constant_time (probe_facts (boot_probe p f)))
               \<and> aes_ni (constant_time (probe_facts (boot_probe p f)))
               \<and> rdrand (constant_time (probe_facts (boot_probe p f))))
          \<and> cache_control (probe_facts (boot_probe p f)) =
              (if fst (boot_probe_cache_control p (cache_control f))
               then snd (boot_probe_cache_control p (cache_control f))
               else (snd (boot_probe_cache_control p (cache_control f)))
                      \<lparr>cc_valid := False\<rparr>)
          \<and> cache_partitioning_supported (probe_facts (boot_probe p f)) =
              (cc_valid (cache_control (probe_facts (boot_probe p f)))
               \<and> (cat (cache_control (probe_facts (boot_probe p f)))
                    \<or> cdp (cache_control (probe_facts (boot_probe p f)))))
          \<and> memory_protection (probe_facts (boot_probe p f)) =
              (if fst (boot_probe_memory_protection p (memory_protection f))
               then snd (boot_probe_memory_protection p (memory_protection f))
               else (snd (boot_probe_memory_protection p (memory_protection f)))
                      \<lparr>mp_valid := False\<rparr>)
          \<and> memory_encryption_supported (probe_facts (boot_probe p f)) =
              (mp_valid (memory_protection (probe_facts (boot_probe p f)))
               \<and> tme (memory_protection (probe_facts (boot_probe p f))))
          \<and> side_channel_mitigation (probe_facts (boot_probe p f)) =
              (if fst (boot_probe_side_channel_mitigation p (side_channel_mitigation f))
               then snd (boot_probe_side_channel_mitigation p (side_channel_mitigation f))
               else (snd (boot_probe_side_channel_mitigation p (side_channel_mitigation f)))
                      \<lparr>scm_valid := False\<rparr>)
          \<and> side_channel_mitigations_available (probe_facts (boot_probe p f)) =
              (scm_valid (side_channel_mitigation (probe_facts (boot_probe p f)))
               \<and> ibrs (side_channel_mitigation (probe_facts (boot_probe p f)))
               \<and> stibp (side_channel_mitigation (probe_facts (boot_probe p f))))
          \<and> trng_available (probe_facts (boot_probe p f)) = boot_probe_trng_available p
          \<and> total_memory_mb (probe_facts (boot_probe p f)) = boot_probe_total_memory_mb p
          \<and> uefi_boot (probe_facts (boot_probe p f)) = boot_probe_uefi_boot p
          \<and> secure_boot_enabled (probe_facts (boot_probe p f))
              = boot_probe_secure_boot_enabled p
          \<and> probed (probe_facts (boot_probe p f))
          \<and> validated (probe_facts (boot_probe p f)) = validated f
          \<and> sealed (probe_facts (boot_probe p f)) = sealed f
          \<and> (\<not> fst (boot_probe_constant_time_support p (constant_time f)) \<longrightarrow>
                \<not> ct_valid (constant_time (probe_facts (boot_probe p f)))
                \<and> \<not> constant_time_supported (probe_facts (boot_probe p f)))
          \<and> (\<not> fst (boot_probe_cache_control p (cache_control f)) \<longrightarrow>
                \<not> cc_valid (cache_control (probe_facts (boot_probe p f)))
                \<and> \<not> cache_partitioning_supported (probe_facts (boot_probe p f)))
          \<and> (\<not> fst (boot_probe_memory_protection p (memory_protection f)) \<longrightarrow>
                \<not> mp_valid (memory_protection (probe_facts (boot_probe p f)))
                \<and> \<not> memory_encryption_supported (probe_facts (boot_probe p f)))
          \<and> (\<not> fst (boot_probe_side_channel_mitigation p (side_channel_mitigation f)) \<longrightarrow>
                \<not> scm_valid (side_channel_mitigation (probe_facts (boot_probe p f)))
                \<and> \<not> side_channel_mitigations_available (probe_facts (boot_probe p f)))"
      by (intro conjI id probe_numa_nodes [OF a] smt tpc ft rs pr
            probe_validated_same probe_sealed_same dg)
  qed
  show ?thesis
    by (rule conjI [OF ok conjI [OF calls conjI [OF f1 conjI [OF f2 conjI [OF f3
          conjI [OF fresh succ]]]]]])
qed

text \<open>
  A provider without NUMA information whose four feature probes all fail: the run still
  completes, in the stated order, and stores what the provider answered. A provider that
  reports no CPU: the run on a fresh record stops after three calls and leaves
  \<^verbatim>\<open>probed\<close> false.
\<close>

theorem boot_probe_twelve_steps_witness:
  "\<not> sealed (boot_init zero_boot_facts)
   \<and> probe_ok (boot_probe degraded_provider (boot_init zero_boot_facts))
   \<and> probe_calls (boot_probe degraded_provider (boot_init zero_boot_facts)) =
       [Call_cpu_info, Call_cache_topology, Call_cpu_count, Call_numa_node_count,
        Call_smt_enabled, Call_constant_time_support, Call_cache_control,
        Call_memory_protection, Call_side_channel_mitigation, Call_trng_available,
        Call_total_memory_mb, Call_uefi_boot, Call_secure_boot_enabled]
   \<and> cpu_count (probe_facts (boot_probe degraded_provider (boot_init zero_boot_facts))) = 4
   \<and> numa_nodes (probe_facts (boot_probe degraded_provider (boot_init zero_boot_facts))) = 1
   \<and> total_memory_mb (probe_facts (boot_probe degraded_provider (boot_init zero_boot_facts)))
       = 8192
   \<and> \<not> ct_valid (constant_time
            (probe_facts (boot_probe degraded_provider (boot_init zero_boot_facts))))
   \<and> \<not> constant_time_supported
            (probe_facts (boot_probe degraded_provider (boot_init zero_boot_facts)))
   \<and> probed (probe_facts (boot_probe degraded_provider (boot_init zero_boot_facts)))
   \<and> \<not> probe_ok (boot_probe no_cpu_provider (boot_init zero_boot_facts))
   \<and> probe_calls (boot_probe no_cpu_provider (boot_init zero_boot_facts)) =
       [Call_cpu_info, Call_cache_topology, Call_cpu_count]
   \<and> \<not> probed (probe_facts (boot_probe no_cpu_provider (boot_init zero_boot_facts)))"
  using boot_probe_twelve_steps [of "boot_init zero_boot_facts" degraded_provider]
    boot_probe_twelve_steps [of "boot_init zero_boot_facts" no_cpu_provider]
  by (simp add: eval_defs)

text \<open>
  C3 as stated fails where it says that a fatal failure leaves \<^verbatim>\<open>probed\<close> false: on a
  record that an earlier probe completed, a later probe that finds no CPU returns false
  and the record still says \<^verbatim>\<open>probed\<close>.
\<close>

theorem reprobe_keeps_probed_counterexample:
  "\<not> sealed probed_facts
   \<and> boot_probe_cpu_count no_cpu_provider = 0
   \<and> \<not> probe_ok (boot_probe no_cpu_provider probed_facts)
   \<and> probed (probe_facts (boot_probe no_cpu_provider probed_facts))"
  by (simp add: eval_defs)

subsection \<open>NUMA node count after a successful probe\<close>

text \<open>
  C9: whenever \<^verbatim>\<open>boot_probe\<close> returns true the record has \<^verbatim>\<open>numa_nodes \<ge> 1\<close> (a provider
  count of 0 is recorded as 1), so the guard \<^verbatim>\<open>numa_nodes < 1\<close> in \<^verbatim>\<open>boot_validate\<close> is false
  on that record and \<^verbatim>\<open>BOOT_ERROR_NO_NUMA\<close> is never recorded for it.
\<close>

theorem probe_numa_nodes_positive:
  assumes "probe_ok (boot_probe p f)"
  shows "1 \<le> numa_nodes (probe_facts (boot_probe p f))
     \<and> (boot_probe_numa_node_count p = 0 \<longrightarrow> numa_nodes (probe_facts (boot_probe p f)) = 1)
     \<and> \<not> numa_nodes (probe_facts (boot_probe p f)) < 1
     \<and> BOOT_ERROR_NO_NUMA \<notin> set (recorded_errors (validate_ctx
           (boot_validate (probe_facts (boot_probe p f)) c)))"
proof -
  have n: "numa_nodes (probe_facts (boot_probe p f)) \<noteq> 0"
    using probe_numa_nodes [OF assms] by simp
  then have lt: "\<not> numa_nodes (probe_facts (boot_probe p f)) < 1"
    by simp
  have le: "1 \<le> numa_nodes (probe_facts (boot_probe p f))"
    by (rule leI [OF lt])
  have z: "boot_probe_numa_node_count p = 0 \<longrightarrow> numa_nodes (probe_facts (boot_probe p f)) = 1"
    using probe_numa_nodes [OF assms] by simp
  have e: "BOOT_ERROR_NO_NUMA \<notin> set (recorded_errors (validate_ctx
           (boot_validate (probe_facts (boot_probe p f)) c)))"
    using lt by (simp add: recorded_validate)
  show ?thesis
    by (rule conjI [OF le conjI [OF z conjI [OF lt e]]])
qed

theorem probe_numa_nodes_positive_witness:
  "probe_ok (boot_probe degraded_provider (boot_init zero_boot_facts))
   \<and> boot_probe_numa_node_count degraded_provider = 0
   \<and> numa_nodes (probe_facts (boot_probe degraded_provider (boot_init zero_boot_facts))) = 1
   \<and> BOOT_ERROR_NO_NUMA \<notin> set (recorded_errors (validate_ctx
         (boot_validate (probe_facts (boot_probe degraded_provider (boot_init zero_boot_facts)))
            fresh_ctx)))"
proof -
  have ok: "probe_ok (boot_probe degraded_provider (boot_init zero_boot_facts))"
    by (simp add: eval_defs)
  have z: "boot_probe_numa_node_count degraded_provider = 0"
    by (simp add: degraded_provider_def minimal_pass_provider_def)
  show ?thesis
    using probe_numa_nodes_positive [OF ok, of fresh_ctx] ok z by simp
qed

subsection \<open>Accumulation of errors\<close>



subsection \<open>A sealed record\<close>

text \<open>
  C1 (as amended): let a record be reached from \<^verbatim>\<open>boot_init\<close> by any sequence of the public
  operations and be sealed. Then \<^verbatim>\<open>boot_probe\<close> and \<^verbatim>\<open>boot_seal\<close> fail on it and leave it
  identical, and \<^verbatim>\<open>boot_validate\<close> leaves it identical as well. \<^verbatim>\<open>boot_init\<close> has no
  guard: it resets the record, and the sealed flag with it.
\<close>

theorem sealed_record_unchanged:
  assumes "f = run_ops ops (boot_init f0)" and "sealed f"
  shows "boot_probe p f = (False, f, [])
     \<and> boot_seal f = (False, f)
     \<and> validate_facts (boot_validate f c) = f
     \<and> \<not> sealed (boot_init f)"
proof -
  have "sealed (boot_init f0) \<longrightarrow> validated (boot_init f0)"
    by (simp add: boot_init_def)
  then have "sealed f \<longrightarrow> validated f"
    unfolding assms(1) by (rule run_ops_sealed_validated)
  with assms(2) have v: "validated f"
    by simp
  have a: "boot_probe p f = (False, f, [])"
    by (rule boot_probe_sealed [OF assms(2)])
  have b: "boot_seal f = (False, f)"
    using assms(2) by (simp add: boot_seal_def)
  have c: "validate_facts (boot_validate f c) = f"
    using v by (simp add: validate_facts_eq validated_update_id)
  have d: "\<not> sealed (boot_init f)"
    by (simp add: boot_init_def)
  show ?thesis
    by (rule conjI [OF a conjI [OF b conjI [OF c d]]])
qed

theorem sealed_record_unchanged_witness:
  "sealed_facts =
     run_ops [Op_probe minimal_pass_provider, Op_validate fresh_ctx, Op_seal]
       (boot_init zero_boot_facts)
   \<and> sealed sealed_facts
   \<and> boot_probe single_core_provider sealed_facts = (False, sealed_facts, [])
   \<and> boot_seal sealed_facts = (False, sealed_facts)
   \<and> validate_facts (boot_validate sealed_facts fresh_ctx) = sealed_facts"
proof -
  have r: "sealed_facts =
     run_ops [Op_probe minimal_pass_provider, Op_validate fresh_ctx, Op_seal]
       (boot_init zero_boot_facts)"
    by (simp add: sealed_facts_def)
  have s: "sealed sealed_facts"
    by (simp add: eval_defs)
  show ?thesis
    using sealed_record_unchanged [OF r s, of single_core_provider fresh_ctx] r s by simp
qed

text \<open>
  C1 as stated fails for \<^verbatim>\<open>boot_init\<close>: it changes the sealed record of the first
  scenario.
\<close>

theorem init_resets_sealed_counterexample:
  "sealed sealed_facts \<and> boot_init sealed_facts \<noteq> sealed_facts"
proof -
  have s: "sealed sealed_facts"
    by (simp add: eval_defs)
  have "\<not> sealed (boot_init sealed_facts)"
    by (simp add: boot_init_def)
  with s show ?thesis by auto
qed

subsection \<open>SMT and threads per core\<close>

text \<open>
  C6 (as amended): after a successful \<^verbatim>\<open>boot_probe\<close>, \<^verbatim>\<open>smt_enabled\<close> is the provider's SMT
  answer; when it is true \<^verbatim>\<open>threads_per_core\<close> is whatever the provider's thread-count
  probe returned, unchecked, so it is at least 2 exactly when the provider says so; when
  it is false \<^verbatim>\<open>threads_per_core\<close> is 1.
\<close>

theorem probe_smt_threads:
  assumes "probe_ok (boot_probe p f)"
  shows "smt_enabled (probe_facts (boot_probe p f)) = boot_probe_smt_enabled p
     \<and> (smt_enabled (probe_facts (boot_probe p f)) \<longrightarrow>
          threads_per_core (probe_facts (boot_probe p f)) = boot_probe_threads_per_core p)
     \<and> (\<not> smt_enabled (probe_facts (boot_probe p f)) \<longrightarrow>
          threads_per_core (probe_facts (boot_probe p f)) = 1)
     \<and> (smt_enabled (probe_facts (boot_probe p f)) \<longrightarrow>
          (2 \<le> threads_per_core (probe_facts (boot_probe p f))
             \<longleftrightarrow> 2 \<le> boot_probe_threads_per_core p))"
  using probe_smt [OF assms] by simp

theorem probe_smt_threads_witness:
  "probe_ok (boot_probe smt2_provider (boot_init zero_boot_facts))
   \<and> smt_enabled (probe_facts (boot_probe smt2_provider (boot_init zero_boot_facts)))
   \<and> threads_per_core (probe_facts (boot_probe smt2_provider (boot_init zero_boot_facts))) = 2"
proof -
  have ok: "probe_ok (boot_probe smt2_provider (boot_init zero_boot_facts))"
    by (simp add: eval_defs)
  have p: "boot_probe_smt_enabled smt2_provider" "boot_probe_threads_per_core smt2_provider = 2"
    by (simp_all add: smt2_provider_def)
  show ?thesis
    using probe_smt_threads [OF ok] ok p by simp
qed

text \<open>
  C6 as stated fails: on an x86-64 machine whose highest CPUID leaf is below \<^verbatim>\<open>0xB\<close> and
  whose HTT flag is set with two logical processors, the back-end's SMT probe answers
  true and its thread-count probe answers 1, and \<^verbatim>\<open>boot_probe\<close> records both.
\<close>

theorem smt_single_thread_counterexample:
  "x86_boot_probe_smt_enabled htt_leaf4_machine
   \<and> x86_boot_probe_threads_per_core htt_leaf4_machine = 1
   \<and> probe_ok (boot_probe htt_leaf4_provider (boot_init zero_boot_facts))
   \<and> smt_enabled (probe_facts (boot_probe htt_leaf4_provider (boot_init zero_boot_facts)))
   \<and> \<not> 2 \<le> threads_per_core
             (probe_facts (boot_probe htt_leaf4_provider (boot_init zero_boot_facts)))"
  by (simp add: htt_leaf4_x86 eval_defs word_le_nat_alt)

subsection \<open>Determinism of the probe\<close>

text \<open>
  C7: two runs of \<^verbatim>\<open>boot_probe\<close> on freshly initialised records, whatever the memory held
  before \<^verbatim>\<open>boot_init\<close>, give the same flag, the same record and the same calls whenever the
  two providers give the same responses to the calls made: the out-parameter probes on
  the zeroed structs they are handed, and the thread count when SMT is reported on.
\<close>

theorem boot_probe_deterministic:
  assumes "boot_probe_cpu_info p zero_cpu_info = boot_probe_cpu_info q zero_cpu_info"
    and "boot_probe_cache_topology p zero_cache_topology
           = boot_probe_cache_topology q zero_cache_topology"
    and "boot_probe_cpu_count p = boot_probe_cpu_count q"
    and "boot_probe_numa_node_count p = boot_probe_numa_node_count q"
    and "boot_probe_smt_enabled p = boot_probe_smt_enabled q"
    and "boot_probe_smt_enabled p \<longrightarrow>
           boot_probe_threads_per_core p = boot_probe_threads_per_core q"
    and "boot_probe_constant_time_support p zero_constant_time
           = boot_probe_constant_time_support q zero_constant_time"
    and "boot_probe_cache_control p zero_cache_control
           = boot_probe_cache_control q zero_cache_control"
    and "boot_probe_memory_protection p zero_memory_protection
           = boot_probe_memory_protection q zero_memory_protection"
    and "boot_probe_side_channel_mitigation p zero_side_channel_mitigation
           = boot_probe_side_channel_mitigation q zero_side_channel_mitigation"
    and "boot_probe_trng_available p = boot_probe_trng_available q"
    and "boot_probe_total_memory_mb p = boot_probe_total_memory_mb q"
    and "boot_probe_uefi_boot p = boot_probe_uefi_boot q"
    and "boot_probe_secure_boot_enabled p = boot_probe_secure_boot_enabled q"
  shows "boot_probe p (boot_init a) = boot_probe q (boot_init b)"
proof -
  have "boot_probe p (boot_init a) = boot_probe q (boot_init a)"
    by (rule boot_probe_cong) (simp_all add: boot_init_fields assms)
  also have "\<dots> = boot_probe q (boot_init b)"
    by (simp add: boot_init_const [of a b])
  finally show ?thesis .
qed

text \<open>
  Two providers that differ only where no call is made, started on different old memory
  contents, produce the same result.
\<close>

theorem boot_probe_deterministic_witness:
  "boot_probe_threads_per_core minimal_pass_provider
     \<noteq> boot_probe_threads_per_core replay_provider
   \<and> boot_probe minimal_pass_provider (boot_init zero_boot_facts)
       = boot_probe replay_provider (boot_init sealed_facts)"
proof -
  have d: "boot_probe_threads_per_core minimal_pass_provider
     \<noteq> boot_probe_threads_per_core replay_provider"
    by (simp add: replay_provider_def minimal_pass_provider_def)
  have "boot_probe minimal_pass_provider (boot_init zero_boot_facts)
       = boot_probe replay_provider (boot_init sealed_facts)"
    by (rule boot_probe_deterministic)
       (simp_all add: replay_provider_def minimal_pass_provider_def zero_cpu_info_def)
  with d show ?thesis by simp
qed

subsection \<open>Symmetry of the cache-isolation matrix\<close>

text \<open>
  C8: in a topology that was initialised from sealed boot facts, taken through any
  sequence of topology operations and is sealed, the cache-isolation query gives the same
  level for \<open>(i, j)\<close> and \<open>(j, i)\<close> for all core ids below \<^verbatim>\<open>core_count\<close>, and
  \<^verbatim>\<open>CACHE_ISOLATED_FULL\<close> on the diagonal.
\<close>

theorem cache_isolation_symmetric:
  assumes "topology_init boot = Some t0"
    and "t = run_topology_ops ops t0"
    and "topo_sealed t"
    and "i < core_count t" and "j < core_count t"
  shows "topology_get_cache_isolation t i j = topology_get_cache_isolation t j i
     \<and> topology_get_cache_isolation t i i = CACHE_ISOLATED_FULL"
proof -
  have ok: "matrix_ok t"
    unfolding assms(2) by (rule matrix_ok_run [OF matrix_ok_init [OF assms(1)]])
  have c: "computed (cache_isolation t)"
    using ok assms(3) by (simp add: matrix_ok_def)
  have i: "unat i < unat (core_count t)" and j: "unat j < unat (core_count t)"
    using assms(4,5) by (simp_all add: word_less_nat_alt)
  show ?thesis
    using ok c i j by (simp add: matrix_ok_def topology_get_cache_isolation_def)
qed

text \<open>The sealed four-core topology of the first scenario, at cores 0 and 1.\<close>

theorem cache_isolation_symmetric_witness:
  "topology_init sealed_facts = Some scenario_topology0
   \<and> topo_sealed scenario_topology
   \<and> (0 :: u32) < core_count scenario_topology \<and> (1 :: u32) < core_count scenario_topology
   \<and> topology_get_cache_isolation scenario_topology 0 1
       = topology_get_cache_isolation scenario_topology 1 0
   \<and> topology_get_cache_isolation scenario_topology 0 0 = CACHE_ISOLATED_FULL"
proof -
  have a: "topology_init sealed_facts = Some scenario_topology0"
    by (simp add: topology_init_def scenario_topology0_def eval_defs)
  have b: "scenario_topology = run_topology_ops scenario_topology_ops scenario_topology0"
    by (simp add: scenario_topology_def)
  have s: "topo_sealed scenario_topology"
    by (simp add: topology_eval_defs)
  have c: "core_count scenario_topology = 4"
    by (simp add: topology_eval_defs)
  have i: "(0 :: u32) < core_count scenario_topology"
    and j: "(1 :: u32) < core_count scenario_topology"
    by (simp_all add: c)
  show ?thesis
    using cache_isolation_symmetric [OF a b s i j] a s i j by simp
qed

end
